theory Spec2Isabelle
  imports Main
begin

section \<open>Domain records (src/types/index.ts)\<close>

text \<open>
  Every interface of \<^verbatim>\<open>types/index.ts\<close> is a record. Field names carry a short prefix
  because several interfaces share the names \<^verbatim>\<open>id\<close>, \<^verbatim>\<open>name\<close> and \<^verbatim>\<open>department\<close>.
  A field declared with \<^verbatim>\<open>?\<close> is an option, \<^verbatim>\<open>None\<close> standing for \<^verbatim>\<open>undefined\<close>.
\<close>

record student =
  st_id :: string
  st_name :: string
  st_rollNumber :: string
  st_email :: string
  st_year :: string
  st_department :: string
  st_programId :: string

text \<open>
  \<^verbatim>\<open>participantIds\<close> is declared \<^verbatim>\<open>string[]\<close>, but \<^verbatim>\<open>handleDeleteStudent\<close> reads it
  with \<^verbatim>\<open>?.\<close> and \<^verbatim>\<open>|| []\<close>, that is, as a value that may be undefined at run time
  (the API layer copies it from the wire as it comes). The model keeps that case.
\<close>

record program =
  prog_id :: string
  prog_title :: string
  prog_description :: "string option"
  prog_type :: string
  prog_startDate :: string
  prog_endDate :: string
  prog_maxParticipants :: int
  prog_registrationOpen :: bool
  prog_department :: string
  prog_coordinator :: string
  prog_participantIds :: "string list option"
  prog_createdAt :: string
  prog_date :: "string option"
  prog_time :: "string option"
  prog_venue :: "string option"
  prog_coordinatorIds :: "string list option"
  prog_updatedAt :: "string option"
  prog_students :: "student list option"

record registered_student =
  stu_id :: string
  stu_name :: string
  stu_email :: string
  stu_phone :: string
  stu_department :: string
  stu_year :: string
  stu_enrollmentNumber :: string
  stu_password :: "string option"
  stu_createdAt :: string
  stu_profileImageUrl :: "string option"

record coordinator =
  coord_id :: string
  coord_name :: string
  coord_email :: string
  coord_phone :: string
  coord_department :: string
  coord_position :: string
  coord_password :: "string option"
  coord_isActive :: bool
  coord_createdAt :: string

datatype badge = Green | Yellow

record student_extra_activity =
  act_id :: string
  act_badge :: badge
  act_title :: string
  act_content :: string
  act_createdAt :: string

record coordinated_program =
  cp_id :: string
  cp_title :: string
  cp_description :: string
  cp_date :: string
  cp_time :: string
  cp_venue :: string
  cp_createdAt :: string

record student_report =
  activities :: "student_extra_activity list"
  coordinatedPrograms :: "coordinated_program list"

record department =
  dept_id :: string
  dept_name :: string
  dept_isActive :: bool
  dept_createdAt :: string

text \<open>The officer record of the API layer (\<^verbatim>\<open>OfficerApiResponse\<close> in services/api).\<close>

record officer_api_response =
  off_id :: string
  off_username :: string
  off_name :: string
  off_email :: string
  off_role :: string
  off_isActive :: bool
  off_createdAt :: string

section \<open>Application state (App.tsx)\<close>

datatype view = VHome | VPrograms | VLogin | VStudent | VCoordinator | VOfficer

datatype role = Student | Coordinator | Officer

text \<open>
  \<^verbatim>\<open>currentUser.data\<close> is a registered student, a coordinator, the officer record the
  server returned, or the literal \<^verbatim>\<open>{ id, name, role }\<close> built from a fallback credential.
\<close>

datatype user_data =
    StudentData registered_student
  | CoordinatorData coordinator
  | OfficerRecord officer_api_response
  | OfficerFallback string string string

record user =
  u_type :: role
  u_data :: user_data

record officer_credential =
  oc_id :: string
  oc_username :: string
  oc_password :: string
  oc_role :: string

text \<open>
  A thrown JavaScript value: an \<^verbatim>\<open>Error\<close> with its message, or anything else.
\<close>

datatype js_error = JsError string | NonError

text \<open>
  The state of the \<^verbatim>\<open>App\<close> component, followed by the part of the browser it acts on:
  the pending timeouts as (handle, deadline) pairs, the last handle \<^verbatim>\<open>setTimeout\<close>
  returned, a millisecond clock, the alerts shown so far, the methods of the API layer called so far, and
  whether the activity listeners of the effect are registered on the document.
\<close>

record app =
  currentView :: view
  programs :: "program list"
  registeredStudents :: "registered_student list"
  coordinators :: "coordinator list"
  departments :: "department list"
  studentReports :: "string \<rightharpoonup> student_report"
  isLoading :: bool
  loadingError :: "string option"
  isLoggedIn :: bool
  currentUser :: "user option"
  officerCredentials :: "officer_credential list"
  logoutTimerRef :: "nat option"
  timers :: "(nat \<times> nat) list"
  lastHandle :: nat
  now :: nat
  alerts :: "string list"
  apiCalls :: "string list"
  listening :: bool

definition initial_officerCredentials :: "officer_credential list" where
  "initial_officerCredentials =
     [\<lparr>oc_id = ''OFFICER001'', oc_username = ''OFFICER001'',
        oc_password = ''NSS@OFFICER2025'', oc_role = ''super admin''\<rparr>,
      \<lparr>oc_id = ''officer001'', oc_username = ''officer001'',
        oc_password = ''nss@mamo'', oc_role = ''super admin''\<rparr>]"

text \<open>The \<^verbatim>\<open>useState\<close> and \<^verbatim>\<open>useRef\<close> initial values, in a browser with no timer pending.\<close>

definition initial_app :: app where
  "initial_app =
     \<lparr>currentView = VHome, programs = [], registeredStudents = [], coordinators = [],
      departments = [], studentReports = Map.empty, isLoading = True, loadingError = None,
      isLoggedIn = False, currentUser = None,
      officerCredentials = initial_officerCredentials, logoutTimerRef = None,
      timers = [], lastHandle = 0, now = 0, alerts = [], apiCalls = [],
      listening = False\<rparr>"

definition INACTIVITY_TIMEOUT :: nat where
  "INACTIVITY_TIMEOUT = 30 * 60 * 1000"

subsection \<open>Browser primitives\<close>

definition alert :: "string \<Rightarrow> app \<Rightarrow> app" where
  "alert msg s = s\<lparr>alerts := alerts s @ [msg]\<rparr>"

definition call :: "string \<Rightarrow> app \<Rightarrow> app" where
  "call method s = s\<lparr>apiCalls := apiCalls s @ [method]\<rparr>"

text \<open>
  \<^verbatim>\<open>setTimeout\<close> returns a handle that is a positive integer, new at every call;
  \<^verbatim>\<open>clearTimeout\<close> cancels the timeout with that handle, if it is still pending.
\<close>

definition setTimeout :: "nat \<Rightarrow> app \<Rightarrow> nat \<times> app" where
  "setTimeout delay s =
     (let h = Suc (lastHandle s)
      in (h, s\<lparr>timers := timers s @ [(h, now s + delay)], lastHandle := h\<rparr>))"

definition clearTimeout :: "nat \<Rightarrow> app \<Rightarrow> app" where
  "clearTimeout h s = s\<lparr>timers := filter (\<lambda>t. fst t \<noteq> h) (timers s)\<rparr>"

text \<open>
  \<^verbatim>\<open>if (logoutTimerRef.current)\<close> is a truthiness test: \<^verbatim>\<open>null\<close> and the number 0 are
  falsy. Below it is the pattern \<^verbatim>\<open>Some h\<close> with \<^verbatim>\<open>h \<noteq> 0\<close>.
\<close>

subsection \<open>Logout and the inactivity timer\<close>

definition handleLogout :: "app \<Rightarrow> app" where
  "handleLogout s =
     (let s1 = s\<lparr>isLoggedIn := False, currentUser := None, currentView := VHome\<rparr>
      in case logoutTimerRef s1 of
           None \<Rightarrow> s1
         | Some h \<Rightarrow>
             if h \<noteq> 0 then (clearTimeout h s1)\<lparr>logoutTimerRef := None\<rparr> else s1)"

definition handleAutoLogout :: "app \<Rightarrow> app" where
  "handleAutoLogout s =
     handleLogout
       (alert ''You have been automatically logged out due to inactivity (30 minutes).'' s)"

text \<open>
  \<^verbatim>\<open>resetLogoutTimer\<close> is a \<^verbatim>\<open>useCallback\<close> closure over \<^verbatim>\<open>isLoggedIn\<close>: the first
  argument is the value of \<^verbatim>\<open>isLoggedIn\<close> in the render that created the closure.
\<close>

definition resetLogoutTimer :: "bool \<Rightarrow> app \<Rightarrow> app" where
  "resetLogoutTimer closure_isLoggedIn s =
     (let s1 = (case logoutTimerRef s of
                  None \<Rightarrow> s
                | Some h \<Rightarrow> if h \<noteq> 0 then clearTimeout h s else s)
      in if closure_isLoggedIn
         then (let (h, s2) = setTimeout INACTIVITY_TIMEOUT s1
               in s2\<lparr>logoutTimerRef := Some h\<rparr>)
         else s1)"

datatype dom_event =
    Mousedown | Mousemove | Keypress | Scroll | Touchstart | Click
  | Mouseup | Keydown | Keyup | Focus | Resize

definition events :: "dom_event list" where
  "events = [Mousedown, Mousemove, Keypress, Scroll, Touchstart, Click]"

text \<open>
  The activity effect, with dependencies \<^verbatim>\<open>[isLoggedIn, resetLogoutTimer]\<close>. Its body
  runs with the \<^verbatim>\<open>isLoggedIn\<close> of the committed render; the listeners it registers call
  the \<^verbatim>\<open>resetLogoutTimer\<close> of that render. Its cleanup exists only for a body that ran
  logged in.
\<close>

definition activityEffect :: "app \<Rightarrow> app" where
  "activityEffect s =
     (if isLoggedIn s
      then (resetLogoutTimer True s)\<lparr>listening := True\<rparr>
      else (case logoutTimerRef s of
              None \<Rightarrow> s
            | Some h \<Rightarrow>
                if h \<noteq> 0 then (clearTimeout h s)\<lparr>logoutTimerRef := None\<rparr> else s))"

definition activityCleanup :: "app \<Rightarrow> app" where
  "activityCleanup s =
     (let s1 = s\<lparr>listening := False\<rparr>
      in case logoutTimerRef s1 of
           None \<Rightarrow> s1
         | Some h \<Rightarrow> if h \<noteq> 0 then clearTimeout h s1 else s1)"

text \<open>
  React commits a render after a handler has changed the state and, since
  \<^verbatim>\<open>resetLogoutTimer\<close> changes exactly when \<^verbatim>\<open>isLoggedIn\<close> does, reruns the effect
  (cleanup of the previous run first) exactly when \<^verbatim>\<open>isLoggedIn\<close> differs from the
  value the effect last ran with. That value is \<^verbatim>\<open>listening\<close>: the effect registers the
  listeners when it runs logged in and its cleanup removes them.
\<close>

definition commit :: "app \<Rightarrow> app" where
  "commit s =
     (if listening s = isLoggedIn s then s
      else activityEffect (if listening s then activityCleanup s else s))"

definition handleUserActivity :: "app \<Rightarrow> app" where
  "handleUserActivity s = resetLogoutTimer True s"

definition dispatchEvent :: "dom_event \<Rightarrow> app \<Rightarrow> app" where
  "dispatchEvent ev s =
     (if listening s \<and> ev \<in> set events then handleUserActivity s else s)"

definition advance :: "nat \<Rightarrow> app \<Rightarrow> app" where
  "advance dt s = s\<lparr>now := now s + dt\<rparr>"

text \<open>
  A pending timeout whose deadline has passed fires once: it leaves the pending list and
  its callback, \<^verbatim>\<open>handleAutoLogout\<close>, runs; React then commits.
\<close>

definition timerExpires :: "nat \<Rightarrow> app \<Rightarrow> app" where
  "timerExpires h s =
     (case map_of (timers s) h of
        None \<Rightarrow> s
      | Some deadline \<Rightarrow>
          if deadline \<le> now s
          then commit (handleAutoLogout (clearTimeout h s))
          else s)"

subsection \<open>Login\<close>

record credentials =
  cred_id :: string
  cred_password :: string

text \<open>
  What a login endpoint answers: \<^verbatim>\<open>{ success, officer? }\<close>, \<^verbatim>\<open>{ success, coordinator? }\<close>
  or \<^verbatim>\<open>{ success, student? }\<close>; \<^verbatim>\<open>payload\<close> is the optional record. A call of the API
  layer either returns such an answer or throws (\<^verbatim>\<open>apiCall\<close> throws when the request
  fails and on every response that is not ok).
\<close>

record 'a login_result =
  success :: bool
  payload :: "'a option"

record api =
  officersApi_login :: "string \<Rightarrow> string \<Rightarrow> js_error + officer_api_response login_result"
  coordinatorsApi_login :: "string \<Rightarrow> string \<Rightarrow> js_error + coordinator login_result"
  studentsApi_login :: "string \<Rightarrow> string \<Rightarrow> js_error + registered_student login_result"

text \<open>
  The three blocks of \<^verbatim>\<open>handleLogin\<close>. Each gives \<^verbatim>\<open>Some\<close> of the state it leaves when
  it reaches its \<^verbatim>\<open>return\<close>, and \<^verbatim>\<open>None\<close> when control falls through to the next block.
\<close>

definition officerBlock :: "api \<Rightarrow> credentials \<Rightarrow> app \<Rightarrow> app option" where
  "officerBlock a credentials s =
     (case officersApi_login a (cred_id credentials) (cred_password credentials) of
        Inr officerResult \<Rightarrow>
          (case payload officerResult of
             Some officer \<Rightarrow>
               if success officerResult
               then Some (s\<lparr>currentUser := Some \<lparr>u_type = Officer, u_data = OfficerRecord officer\<rparr>,
                            isLoggedIn := True, currentView := VOfficer\<rparr>)
               else None
           | None \<Rightarrow> None)
      | Inl loginError \<Rightarrow>
          (case find (\<lambda>oc. (cred_id credentials = oc_id oc \<or> cred_id credentials = oc_username oc)
                           \<and> cred_password credentials = oc_password oc)
                     (officerCredentials s) of
             Some matchingOfficer \<Rightarrow>
               Some (s\<lparr>currentUser :=
                          Some \<lparr>u_type = Officer,
                                u_data = OfficerFallback (oc_id matchingOfficer) ''Program Officer''
                                           (oc_role matchingOfficer)\<rparr>,
                        isLoggedIn := True, currentView := VOfficer\<rparr>)
           | None \<Rightarrow> None))"

definition coordinatorBlock :: "api \<Rightarrow> credentials \<Rightarrow> app \<Rightarrow> app option" where
  "coordinatorBlock a credentials s =
     (case coordinatorsApi_login a (cred_id credentials) (cred_password credentials) of
        Inr coordinatorResult \<Rightarrow>
          (case payload coordinatorResult of
             Some c \<Rightarrow>
               if success coordinatorResult
               then Some (s\<lparr>currentUser := Some \<lparr>u_type = Coordinator, u_data = CoordinatorData c\<rparr>,
                            isLoggedIn := True, currentView := VCoordinator\<rparr>)
               else None
           | None \<Rightarrow> None)
      | Inl loginError \<Rightarrow> None)"

definition studentBlock :: "api \<Rightarrow> credentials \<Rightarrow> app \<Rightarrow> app option" where
  "studentBlock a credentials s =
     (case studentsApi_login a (cred_id credentials) (cred_password credentials) of
        Inr studentResult \<Rightarrow>
          (case payload studentResult of
             Some st \<Rightarrow>
               if success studentResult
               then Some (s\<lparr>currentUser := Some \<lparr>u_type = Student, u_data = StudentData st\<rparr>,
                            isLoggedIn := True, currentView := VStudent\<rparr>)
               else None
           | None \<Rightarrow> None)
      | Inl loginError \<Rightarrow> None)"

text \<open>
  \<^verbatim>\<open>handleLogin\<close>. Nothing outside the three inner \<^verbatim>\<open>try\<close> blocks can throw, so the outer
  \<^verbatim>\<open>catch\<close> (``Login failed. Please try again.'') has no branch here.
\<close>

definition handleLogin :: "api \<Rightarrow> credentials \<Rightarrow> app \<Rightarrow> app" where
  "handleLogin a credentials s =
     (let s1 = call ''officersApi.login'' s
      in case officerBlock a credentials s1 of
           Some done \<Rightarrow> done
         | None \<Rightarrow>
             (let s2 = call ''coordinatorsApi.login'' s1
              in case coordinatorBlock a credentials s2 of
                   Some done \<Rightarrow> done
                 | None \<Rightarrow>
                     (let s3 = call ''studentsApi.login'' s2
                      in case studentBlock a credentials s3 of
                           Some done \<Rightarrow> done
                         | None \<Rightarrow> alert ''Invalid credentials'' s3)))"

subsection \<open>View routing and the top-level render\<close>

datatype panel =
  HomePage | ProgramsPage | LoginPage | StudentPortal | TeacherPortal | ProgramOfficerPortal

text \<open>\<^verbatim>\<open>currentUser?.type === r\<close>.\<close>

definition userTypeIs :: "app \<Rightarrow> role \<Rightarrow> bool" where
  "userTypeIs s r = (case currentUser s of None \<Rightarrow> False | Some u \<Rightarrow> u_type u = r)"

definition renderCurrentView :: "app \<Rightarrow> panel" where
  "renderCurrentView s =
     (case currentView s of
        VHome \<Rightarrow> HomePage
      | VPrograms \<Rightarrow> ProgramsPage
      | VLogin \<Rightarrow> LoginPage
      | VStudent \<Rightarrow>
          if isLoggedIn s \<and> userTypeIs s Student then StudentPortal else LoginPage
      | VCoordinator \<Rightarrow>
          if isLoggedIn s \<and> (userTypeIs s Coordinator \<or> userTypeIs s Officer)
          then TeacherPortal else LoginPage
      | VOfficer \<Rightarrow>
          if isLoggedIn s \<and> userTypeIs s Officer then ProgramOfficerPortal else LoginPage)"

datatype screen = LoadingScreen | ConnectionErrorScreen string | MainScreen panel

text \<open>
  The body of \<^verbatim>\<open>App\<close> after the handlers: \<^verbatim>\<open>if (isLoading)\<close>, then
  \<^verbatim>\<open>if (loadingError)\<close>, where \<^verbatim>\<open>null\<close> and the empty string are falsy, then the
  header with \<^verbatim>\<open>renderCurrentView()\<close>.
\<close>

definition App_render :: "app \<Rightarrow> screen" where
  "App_render s =
     (if isLoading s then LoadingScreen
      else case loadingError s of
             None \<Rightarrow> MainScreen (renderCurrentView s)
           | Some msg \<Rightarrow>
               if msg \<noteq> [] then ConnectionErrorScreen msg
               else MainScreen (renderCurrentView s))"

subsection \<open>The session as a transition system\<close>

text \<open>
  What can happen to a mounted \<^verbatim>\<open>App\<close>: a login attempt, a click on logout, a DOM event
  on the document, time passing, a pending timeout firing, and the header changing the
  view. A handler that sets state is followed by React's commit.
\<close>

datatype action =
    ALogin api credentials
  | ALogout
  | AEvent dom_event
  | ATick nat
  | ATimer nat
  | AView view

fun step :: "action \<Rightarrow> app \<Rightarrow> app" where
  "step (ALogin a c) s = commit (handleLogin a c s)"
| "step ALogout s = commit (handleLogout s)"
| "step (AEvent ev) s = dispatchEvent ev s"
| "step (ATick dt) s = advance dt s"
| "step (ATimer h) s = timerExpires h s"
| "step (AView v) s = s\<lparr>currentView := v\<rparr>"

fun run :: "action list \<Rightarrow> app \<Rightarrow> app" where
  "run [] s = s"
| "run (a # as) s = run as (step a s)"

text \<open>
  A run of monitored activity: each entry is a DOM event and the time that passed since
  the previous one.
\<close>

fun activity :: "(nat \<times> dom_event) list \<Rightarrow> app \<Rightarrow> app" where
  "activity [] s = s"
| "activity ((dt, ev) # rest) s = activity rest (dispatchEvent ev (advance dt s))"

text \<open>The time left on the timeout that \<^verbatim>\<open>logoutTimerRef\<close> holds, if it is pending.\<close>

definition remaining :: "app \<Rightarrow> nat option" where
  "remaining s =
     (case logoutTimerRef s of
        None \<Rightarrow> None
      | Some h \<Rightarrow> map_option (\<lambda>deadline. deadline - now s) (map_of (timers s) h))"

text \<open>
  The shape the timer state keeps: \<^verbatim>\<open>logoutTimerRef\<close> holds a handle that
  \<^verbatim>\<open>setTimeout\<close> has returned, and every pending timeout has that handle; the listeners
  are registered exactly while logged in; logged out, nothing is pending.
\<close>

definition single_timer :: "app \<Rightarrow> bool" where
  "single_timer s =
     (case logoutTimerRef s of
        None \<Rightarrow> timers s = []
      | Some h \<Rightarrow> 0 < h \<and> h \<le> lastHandle s \<and> list_all (\<lambda>t. fst t = h) (timers s))"

definition session_inv :: "app \<Rightarrow> bool" where
  "session_inv s =
     (single_timer s \<and> listening s = isLoggedIn s \<and> (isLoggedIn s \<or> timers s = []))"

section \<open>Initial load (App.tsx, first effect)\<close>

text \<open>\<^verbatim>\<open>StudentReportApiResponse\<close> of the API layer; the two arrays may be missing.\<close>

record student_report_api_response =
  rep_id :: string
  rep_studentId :: string
  rep_studentName :: string
  rep_department :: string
  rep_year :: string
  rep_activities :: "student_extra_activity list option"
  rep_coordinatedPrograms :: "coordinated_program list option"
  rep_createdAt :: string
  rep_updatedAt :: string

text \<open>How each request of the initial load settles: with a value, or by throwing.\<close>

record load_responses =
  healthCheck :: "js_error + unit"
  programsData :: "js_error + program list"
  studentsData :: "js_error + registered_student list"
  coordinatorsData :: "js_error + coordinator list"
  departmentsData :: "js_error + department list"
  reportsData :: "js_error + student_report_api_response list"

datatype fetch = FetchPrograms | FetchStudents | FetchCoordinators | FetchDepartments

definition rejection :: "load_responses \<Rightarrow> fetch \<Rightarrow> js_error option" where
  "rejection r f =
     (case f of
        FetchPrograms \<Rightarrow> (case programsData r of Inl e \<Rightarrow> Some e | Inr _ \<Rightarrow> None)
      | FetchStudents \<Rightarrow> (case studentsData r of Inl e \<Rightarrow> Some e | Inr _ \<Rightarrow> None)
      | FetchCoordinators \<Rightarrow> (case coordinatorsData r of Inl e \<Rightarrow> Some e | Inr _ \<Rightarrow> None)
      | FetchDepartments \<Rightarrow> (case departmentsData r of Inl e \<Rightarrow> Some e | Inr _ \<Rightarrow> None))"

text \<open>
  \<^verbatim>\<open>Promise.all\<close> over the four requests, all of them already issued. It rejects with
  the reason of the request that is first to reject, and fulfils with the four values
  when none rejects. \<^verbatim>\<open>order\<close> lists the requests in the order in which they settle; a
  request it does not name settles after the named ones, in the order of the array.
\<close>

definition promise_all ::
  "fetch list \<Rightarrow> load_responses \<Rightarrow>
     js_error + (program list \<times> registered_student list \<times> coordinator list \<times> department list)"
where
  "promise_all order r =
     (case find (\<lambda>f. rejection r f \<noteq> None)
             (order @ [FetchPrograms, FetchStudents, FetchCoordinators, FetchDepartments]) of
        Some f \<Rightarrow> (case rejection r f of Some e \<Rightarrow> Inl e | None \<Rightarrow> Inl NonError)
      | None \<Rightarrow>
          (case (programsData r, studentsData r, coordinatorsData r, departmentsData r) of
             (Inr p, Inr st, Inr c, Inr d) \<Rightarrow> Inr (p, st, c, d)
           | _ \<Rightarrow> Inl NonError))"

text \<open>The \<^verbatim>\<open>catch\<close> and \<^verbatim>\<open>finally\<close> of \<^verbatim>\<open>loadInitialData\<close>.\<close>

definition loadFailed :: "js_error \<Rightarrow> app \<Rightarrow> app" where
  "loadFailed error s =
     s\<lparr>loadingError := Some (case error of
                                JsError message \<Rightarrow> message
                              | NonError \<Rightarrow> ''Failed to connect to server''),
       isLoading := False\<rparr>"

definition reportsMap ::
  "student_report_api_response list \<Rightarrow> (string \<rightharpoonup> student_report)" where
  "reportsMap reports =
     foldl (\<lambda>m report.
              m(rep_studentId report \<mapsto>
                  \<lparr>activities = (case rep_activities report of None \<Rightarrow> [] | Some as \<Rightarrow> as),
                   coordinatedPrograms =
                     (case rep_coordinatedPrograms report of None \<Rightarrow> [] | Some cs \<Rightarrow> cs)\<rparr>))
           Map.empty reports"

definition loadInitialData :: "fetch list \<Rightarrow> load_responses \<Rightarrow> app \<Rightarrow> app" where
  "loadInitialData order r s =
     (let s1 = call ''healthApi.check'' (s\<lparr>isLoading := True, loadingError := None\<rparr>)
      in case healthCheck r of
           Inl error \<Rightarrow> loadFailed error s1
         | Inr _ \<Rightarrow>
             (let s2 = call ''departmentsApi.getAll''
                         (call ''coordinatorsApi.getAll''
                           (call ''studentsApi.getAll'' (call ''programsApi.getAll'' s1)))
              in case promise_all order r of
                   Inl error \<Rightarrow> loadFailed error s2
                 | Inr (p, st, c, d) \<Rightarrow>
                     (let s3 = call ''studentReportsApi.getAll''
                                 (s2\<lparr>programs := p, registeredStudents := st,
                                     coordinators := c, departments := d\<rparr>);
                          reports = (case reportsData r of Inl _ \<Rightarrow> [] | Inr rs \<Rightarrow> rs)
                      in s3\<lparr>studentReports := reportsMap reports, isLoading := False\<rparr>)))"

section \<open>CRUD handlers (App.tsx)\<close>

text \<open>
  Each handler takes, after its own arguments, the outcome of the API call it awaits:
  \<^verbatim>\<open>Inr\<close> of the value the call resolves to, \<^verbatim>\<open>Inl\<close> of what it throws.
\<close>

text \<open>\<^verbatim>\<open>a || b\<close> on an optional string: \<^verbatim>\<open>undefined\<close> and the empty string are falsy.\<close>

definition str_or :: "string option \<Rightarrow> string \<Rightarrow> string" where
  "str_or a b = (case a of None \<Rightarrow> b | Some x \<Rightarrow> if x \<noteq> [] then x else b)"

text \<open>
  The entry \<^verbatim>\<open>handleAddProgram\<close> puts in a coordinator's report.
  \<^verbatim>\<open>toLocaleTimeString\<close> is the browser's, taken as a parameter.
\<close>

definition coordinatedProgramOfNew :: "(string \<Rightarrow> string) \<Rightarrow> program \<Rightarrow> coordinated_program" where
  "coordinatedProgramOfNew toLocaleTimeString newProgram =
     \<lparr>cp_id = prog_id newProgram,
      cp_title = prog_title newProgram,
      cp_description = str_or (prog_description newProgram) [],
      cp_date = str_or (prog_date newProgram)
                  (str_or (Some (takeWhile (\<lambda>ch. ch \<noteq> CHR ''T'') (prog_startDate newProgram))) []),
      cp_time = str_or (prog_time newProgram)
                  (if prog_startDate newProgram \<noteq> []
                   then toLocaleTimeString (prog_startDate newProgram) else []),
      cp_venue = str_or (prog_venue newProgram) (str_or (Some (prog_department newProgram)) []),
      cp_createdAt = prog_createdAt newProgram\<rparr>"

text \<open>
  \<^verbatim>\<open>programData\<close> has type \<^verbatim>\<open>Omit<Program, 'id' | 'createdAt' | 'updatedAt'>\<close>; it is a
  \<^verbatim>\<open>program\<close> whose three omitted fields are never read. The report updates sent to the
  server after the local change are awaited one by one and their failures are only
  logged to the console.
\<close>

definition handleAddProgram ::
  "(string \<Rightarrow> string) \<Rightarrow> program \<Rightarrow> js_error + program \<Rightarrow> app \<Rightarrow> app" where
  "handleAddProgram toLocaleTimeString programData response s =
     (let s1 = call ''programsApi.create'' s
      in case response of
           Inl error \<Rightarrow> alert ''Failed to add program. Please try again.'' s1
         | Inr newProgram \<Rightarrow>
             (let s2 = s1\<lparr>programs := newProgram # programs s1\<rparr>
              in case prog_coordinatorIds programData of
                   None \<Rightarrow> s2
                 | Some ids \<Rightarrow>
                     if length ids > 0
                     then
                       (let coordinatedProgram = coordinatedProgramOfNew toLocaleTimeString newProgram;
                            s3 = s2\<lparr>studentReports :=
                                      foldl (\<lambda>updated studentId.
                                               case updated studentId of
                                                 Some existingReport \<Rightarrow>
                                                   updated(studentId \<mapsto>
                                                     existingReport\<lparr>coordinatedPrograms :=
                                                       coordinatedProgram # coordinatedPrograms existingReport\<rparr>)
                                               | None \<Rightarrow>
                                                   updated(studentId \<mapsto>
                                                     \<lparr>activities = [],
                                                      coordinatedPrograms = [coordinatedProgram]\<rparr>))
                                            (studentReports s2) ids\<rparr>
                        in foldl (\<lambda>st studentId. call ''studentReportsApi.update'' st) s3 ids)
                     else s2))"

definition handleEditProgram ::
  "string \<Rightarrow> program \<Rightarrow> js_error + program \<Rightarrow> app \<Rightarrow> app" where
  "handleEditProgram id' programData response s =
     (let oldProgram = find (\<lambda>p. prog_id p = id') (programs s);
          s1 = call ''programsApi.update'' s
      in case response of
           Inl error \<Rightarrow> alert ''Failed to edit program. Please try again.'' s1
         | Inr updatedProgram \<Rightarrow>
             (let s2 = s1\<lparr>programs := map (\<lambda>program. if prog_id program = id'
                                                      then updatedProgram else program)
                                          (programs s1)\<rparr>
              in case (oldProgram, prog_coordinatorIds programData) of
                   (Some old, Some newIds) \<Rightarrow>
                     (let s3 = (case prog_coordinatorIds old of
                                  None \<Rightarrow> s2
                                | Some oldIds \<Rightarrow>
                                    s2\<lparr>studentReports :=
                                         foldl (\<lambda>updated studentId.
                                                  case updated studentId of
                                                    Some report \<Rightarrow>
                                                      updated(studentId \<mapsto>
                                                        report\<lparr>coordinatedPrograms :=
                                                          filter (\<lambda>p. cp_id p \<noteq> id')
                                                            (coordinatedPrograms report)\<rparr>)
                                                  | None \<Rightarrow> updated)
                                               (studentReports s2) oldIds\<rparr>)
                      in if length newIds > 0
                         then
                           (let coordinatedProgram =
                                  \<lparr>cp_id = id',
                                   cp_title = prog_title programData,
                                   cp_description = str_or (prog_description programData) [],
                                   cp_date = str_or (prog_date programData) [],
                                   cp_time = str_or (prog_time programData) [],
                                   cp_venue = str_or (prog_venue programData) [],
                                   cp_createdAt = prog_createdAt old\<rparr>
                            in s3\<lparr>studentReports :=
                                    foldl (\<lambda>updated studentId.
                                             case updated studentId of
                                               Some existingReport \<Rightarrow>
                                                 updated(studentId \<mapsto>
                                                   existingReport\<lparr>coordinatedPrograms :=
                                                     coordinatedProgram #
                                                       filter (\<lambda>p. cp_id p \<noteq> id')
                                                         (coordinatedPrograms existingReport)\<rparr>)
                                             | None \<Rightarrow>
                                                 updated(studentId \<mapsto>
                                                   \<lparr>activities = [],
                                                    coordinatedPrograms = [coordinatedProgram]\<rparr>))
                                          (studentReports s3) newIds\<rparr>)
                         else s3)
                 | _ \<Rightarrow> s2))"

definition handleDeleteProgram :: "string \<Rightarrow> js_error + unit \<Rightarrow> app \<Rightarrow> app" where
  "handleDeleteProgram id' response s =
     (let s1 = call ''programsApi.delete'' s
      in case response of
           Inl error \<Rightarrow> alert ''Failed to delete program. Please try again.'' s1
         | Inr _ \<Rightarrow> s1\<lparr>programs := filter (\<lambda>program. prog_id program \<noteq> id') (programs s1)\<rparr>)"

text \<open>
  \<^verbatim>\<open>handleAddParticipants\<close> awaits nothing and calls no API: it changes the local list at
  once. \<^verbatim>\<open>nowISO\<close> is \<^verbatim>\<open>new Date().toISOString()\<close>.
\<close>

definition handleAddParticipants :: "string \<Rightarrow> string \<Rightarrow> string list \<Rightarrow> app \<Rightarrow> app" where
  "handleAddParticipants nowISO programId studentIds s =
     s\<lparr>programs := map (\<lambda>program. if prog_id program = programId
                                   then program\<lparr>prog_participantIds := Some studentIds,
                                                prog_updatedAt := Some nowISO\<rparr>
                                   else program)
                       (programs s)\<rparr>"

definition handleAddStudent :: "js_error + registered_student \<Rightarrow> app \<Rightarrow> app" where
  "handleAddStudent response s =
     (let s1 = call ''studentsApi.create'' s
      in case response of
           Inl error \<Rightarrow> alert ''Failed to add student. Please try again.'' s1
         | Inr newStudent \<Rightarrow> s1\<lparr>registeredStudents := registeredStudents s1 @ [newStudent]\<rparr>)"

definition handleAddCoordinator :: "js_error + coordinator \<Rightarrow> app \<Rightarrow> app" where
  "handleAddCoordinator response s =
     (let s1 = call ''coordinatorsApi.create'' s
      in case response of
           Inl error \<Rightarrow> alert ''Failed to add coordinator. Please try again.'' s1
         | Inr newCoordinator \<Rightarrow> s1\<lparr>coordinators := coordinators s1 @ [newCoordinator]\<rparr>)"

definition handleToggleCoordinatorAccess ::
  "string \<Rightarrow> js_error + coordinator \<Rightarrow> app \<Rightarrow> app" where
  "handleToggleCoordinatorAccess id' response s =
     (case find (\<lambda>c. coord_id c = id') (coordinators s) of
        None \<Rightarrow> s
      | Some c \<Rightarrow>
          (let s1 = call ''coordinatorsApi.update'' s
           in case response of
                Inl error \<Rightarrow> alert ''Failed to update coordinator access. Please try again.'' s1
              | Inr updatedCoordinator \<Rightarrow>
                  s1\<lparr>coordinators := map (\<lambda>c. if coord_id c = id' then updatedCoordinator else c)
                                         (coordinators s1)\<rparr>))"

definition handleEditStudent :: "string \<Rightarrow> js_error + registered_student \<Rightarrow> app \<Rightarrow> app" where
  "handleEditStudent id' response s =
     (let s1 = call ''studentsApi.update'' s
      in case response of
           Inl error \<Rightarrow> alert ''Failed to edit student. Please try again.'' s1
         | Inr updatedStudent \<Rightarrow>
             s1\<lparr>registeredStudents := map (\<lambda>st. if stu_id st = id' then updatedStudent else st)
                                          (registeredStudents s1)\<rparr>)"

definition handleEditCoordinator :: "string \<Rightarrow> js_error + coordinator \<Rightarrow> app \<Rightarrow> app" where
  "handleEditCoordinator id' response s =
     (let s1 = call ''coordinatorsApi.update'' s
      in case response of
           Inl error \<Rightarrow> alert ''Failed to edit coordinator. Please try again.'' s1
         | Inr updatedCoordinator \<Rightarrow>
             s1\<lparr>coordinators := map (\<lambda>c. if coord_id c = id' then updatedCoordinator else c)
                                    (coordinators s1)\<rparr>)"

text \<open>
  \<^verbatim>\<open>handleDeleteStudent\<close> awaits two calls. A failure of the second, the deletion of
  the report on the server, is caught on its own and only logged to the console.
\<close>

definition handleDeleteStudent ::
  "string \<Rightarrow> js_error + unit \<Rightarrow> js_error + unit \<Rightarrow> app \<Rightarrow> app" where
  "handleDeleteStudent id' response reportResponse s =
     (let s1 = call ''studentsApi.delete'' s
      in case response of
           Inl error \<Rightarrow> alert ''Failed to delete student. Please try again.'' s1
         | Inr _ \<Rightarrow>
             (let s2 = s1\<lparr>registeredStudents :=
                            filter (\<lambda>st. stu_id st \<noteq> id') (registeredStudents s1),
                          programs :=
                            map (\<lambda>program.
                                   program\<lparr>prog_participantIds :=
                                     Some (case prog_participantIds program of
                                             None \<Rightarrow> []
                                           | Some ids \<Rightarrow>
                                               filter (\<lambda>participantId. participantId \<noteq> id') ids)\<rparr>)
                                (programs s1)\<rparr>;
                  s3 = (case reportResponse of
                          Inl error \<Rightarrow> call ''studentReportsApi.delete'' s2
                        | Inr _ \<Rightarrow> call ''studentReportsApi.delete'' s2)
              in s3\<lparr>studentReports := (studentReports s3)(id' := None)\<rparr>))"

definition handleDeleteCoordinator :: "string \<Rightarrow> js_error + unit \<Rightarrow> app \<Rightarrow> app" where
  "handleDeleteCoordinator id' response s =
     (let s1 = call ''coordinatorsApi.delete'' s
      in case response of
           Inl error \<Rightarrow> alert ''Failed to delete coordinator. Please try again.'' s1
         | Inr _ \<Rightarrow> s1\<lparr>coordinators := filter (\<lambda>c. coord_id c \<noteq> id') (coordinators s1)\<rparr>)"

definition handleUpdateOfficerPassword :: "string \<Rightarrow> app \<Rightarrow> app" where
  "handleUpdateOfficerPassword newPassword s =
     s\<lparr>officerCredentials :=
         map (\<lambda>oc. if oc_id oc = ''OFFICER001'' then oc\<lparr>oc_password := newPassword\<rparr> else oc)
             (officerCredentials s)\<rparr>"

definition handleAddDepartment :: "js_error + department \<Rightarrow> app \<Rightarrow> app" where
  "handleAddDepartment response s =
     (let s1 = call ''departmentsApi.create'' s
      in case response of
           Inl error \<Rightarrow> alert ''Failed to add department. Please try again.'' s1
         | Inr newDepartment \<Rightarrow> s1\<lparr>departments := departments s1 @ [newDepartment]\<rparr>)"

definition handleEditDepartment ::
  "string \<Rightarrow> string \<Rightarrow> js_error + department \<Rightarrow> app \<Rightarrow> app" where
  "handleEditDepartment id' newName response s =
     (case find (\<lambda>d. dept_id d = id') (departments s) of
        None \<Rightarrow> s
      | Some oldDepartment \<Rightarrow>
          (let s1 = call ''departmentsApi.update'' s
           in case response of
                Inl error \<Rightarrow> alert ''Failed to edit department. Please try again.'' s1
              | Inr updatedDepartment \<Rightarrow>
                  s1\<lparr>departments := map (\<lambda>d. if dept_id d = id' then updatedDepartment else d)
                                        (departments s1),
                     registeredStudents :=
                       map (\<lambda>st. if stu_department st = dept_name oldDepartment
                                  then st\<lparr>stu_department := newName\<rparr> else st)
                           (registeredStudents s1)\<rparr>))"

definition handleToggleDepartment :: "string \<Rightarrow> js_error + department \<Rightarrow> app \<Rightarrow> app" where
  "handleToggleDepartment id' response s =
     (case find (\<lambda>d. dept_id d = id') (departments s) of
        None \<Rightarrow> s
      | Some d \<Rightarrow>
          (let s1 = call ''departmentsApi.update'' s
           in case response of
                Inl error \<Rightarrow> alert ''Failed to update department status. Please try again.'' s1
              | Inr updatedDepartment \<Rightarrow>
                  s1\<lparr>departments := map (\<lambda>d. if dept_id d = id' then updatedDepartment else d)
                                        (departments s1)\<rparr>))"

section \<open>Vocabulary of the specification\<close>

text \<open>
  The session of the specification: it exists when \<^verbatim>\<open>isLoggedIn\<close> is set and
  \<^verbatim>\<open>currentUser\<close> is not null, and its role is the user's type.
\<close>

definition session :: "app \<Rightarrow> role option" where
  "session s = (if isLoggedIn s then map_option u_type (currentUser s) else None)"

text \<open>
  The router as the specification words it: three views are unguarded; each protected
  view has a set of roles and shows its panel to a session with one of them, the login
  panel otherwise.
\<close>

definition requiredRoles :: "view \<Rightarrow> role list" where
  "requiredRoles v =
     (case v of
        VStudent \<Rightarrow> [Student]
      | VCoordinator \<Rightarrow> [Coordinator, Officer]
      | VOfficer \<Rightarrow> [Officer]
      | _ \<Rightarrow> [])"

definition spec_route :: "view \<Rightarrow> role option \<Rightarrow> panel" where
  "spec_route v sess =
     (case v of
        VHome \<Rightarrow> HomePage
      | VPrograms \<Rightarrow> ProgramsPage
      | VLogin \<Rightarrow> LoginPage
      | _ \<Rightarrow>
          (case sess of
             None \<Rightarrow> LoginPage
           | Some r \<Rightarrow>
               if r \<in> set (requiredRoles v)
               then (case v of
                       VStudent \<Rightarrow> StudentPortal
                     | VCoordinator \<Rightarrow> TeacherPortal
                     | _ \<Rightarrow> ProgramOfficerPortal)
               else LoginPage))"

text \<open>
  A verification path returns a positive match. For the officer path that is a
  successful answer carrying an officer or, when the call throws, a fallback credential
  with the given id or username and password.
\<close>

definition fallbackMatches :: "credentials \<Rightarrow> officer_credential list \<Rightarrow> bool" where
  "fallbackMatches c ocs =
     list_ex (\<lambda>oc. (cred_id c = oc_id oc \<or> cred_id c = oc_username oc)
                    \<and> cred_password c = oc_password oc) ocs"

definition positive :: "js_error + 'a login_result \<Rightarrow> bool" where
  "positive answer =
     (case answer of Inl _ \<Rightarrow> False | Inr r \<Rightarrow> success r \<and> payload r \<noteq> None)"

definition unreachable :: "js_error + 'a \<Rightarrow> bool" where
  "unreachable answer = (case answer of Inl _ \<Rightarrow> True | Inr _ \<Rightarrow> False)"

definition officerMatches :: "api \<Rightarrow> credentials \<Rightarrow> app \<Rightarrow> bool" where
  "officerMatches a c s =
     (positive (officersApi_login a (cred_id c) (cred_password c))
      \<or> unreachable (officersApi_login a (cred_id c) (cred_password c))
         \<and> fallbackMatches c (officerCredentials s))"

definition coordinatorMatches :: "api \<Rightarrow> credentials \<Rightarrow> bool" where
  "coordinatorMatches a c = positive (coordinatorsApi_login a (cred_id c) (cred_password c))"

definition studentMatches :: "api \<Rightarrow> credentials \<Rightarrow> bool" where
  "studentMatches a c = positive (studentsApi_login a (cred_id c) (cred_password c))"

text \<open>The answer of an endpoint that was reached and found no match.\<close>

definition noMatch :: "js_error + 'a login_result" where
  "noMatch = Inr \<lparr>success = False, payload = None\<rparr>"

text \<open>The domain data of the application: what the CRUD handlers maintain.\<close>

definition domainState ::
  "app \<Rightarrow> program list \<times> registered_student list \<times> coordinator list \<times> department list
          \<times> (string \<rightharpoonup> student_report)" where
  "domainState s =
     (programs s, registeredStudents s, coordinators s, departments s, studentReports s)"

section \<open>Example inputs\<close>

text \<open>Concrete servers, credentials and states, used to instantiate the theorems.\<close>

definition example_api_unreachable :: api where
  "example_api_unreachable =
     \<lparr>officersApi_login = (\<lambda>_ _. Inl (JsError ''Failed to fetch'')),
      coordinatorsApi_login = (\<lambda>_ _. Inl (JsError ''Failed to fetch'')),
      studentsApi_login = (\<lambda>_ _. Inl (JsError ''Failed to fetch''))\<rparr>"

definition example_api_denies :: api where
  "example_api_denies =
     \<lparr>officersApi_login = (\<lambda>_ _. noMatch),
      coordinatorsApi_login = (\<lambda>_ _. noMatch),
      studentsApi_login = (\<lambda>_ _. noMatch)\<rparr>"

definition example_fallback_credentials :: credentials where
  "example_fallback_credentials =
     \<lparr>cred_id = ''OFFICER001'', cred_password = ''NSS@OFFICER2025''\<rparr>"

definition example_officer :: officer_api_response where
  "example_officer =
     \<lparr>off_id = ''O1'', off_username = ''head'', off_name = ''Head Officer'',
      off_email = ''head@example.org'', off_role = ''super admin'', off_isActive = True,
      off_createdAt = ''2025-01-01T00:00:00.000Z''\<rparr>"

definition example_coordinator :: coordinator where
  "example_coordinator =
     \<lparr>coord_id = ''C1'', coord_name = ''Asha'', coord_email = ''asha@example.org'',
      coord_phone = ''100'', coord_department = ''Physics'', coord_position = ''Lecturer'',
      coord_password = None, coord_isActive = True,
      coord_createdAt = ''2025-01-01T00:00:00.000Z''\<rparr>"

definition example_student :: registered_student where
  "example_student =
     \<lparr>stu_id = ''S1'', stu_name = ''Bala'', stu_email = ''bala@example.org'',
      stu_phone = ''200'', stu_department = ''Physics'', stu_year = ''2'',
      stu_enrollmentNumber = ''E1'', stu_password = None,
      stu_createdAt = ''2025-01-02T00:00:00.000Z'', stu_profileImageUrl = None\<rparr>"

definition example_credentials :: credentials where
  "example_credentials = \<lparr>cred_id = ''C1'', cred_password = ''secret''\<rparr>"

definition example_api_officer_and_coordinator :: api where
  "example_api_officer_and_coordinator =
     \<lparr>officersApi_login = (\<lambda>_ _. Inr \<lparr>success = True, payload = Some example_officer\<rparr>),
      coordinatorsApi_login = (\<lambda>_ _. Inr \<lparr>success = True, payload = Some example_coordinator\<rparr>),
      studentsApi_login = (\<lambda>_ _. noMatch)\<rparr>"

definition example_api_coordinator :: api where
  "example_api_coordinator =
     \<lparr>officersApi_login = (\<lambda>_ _. noMatch),
      coordinatorsApi_login = (\<lambda>_ _. Inr \<lparr>success = True, payload = Some example_coordinator\<rparr>),
      studentsApi_login = (\<lambda>_ _. noMatch)\<rparr>"

definition example_api_student :: api where
  "example_api_student =
     \<lparr>officersApi_login = (\<lambda>_ _. noMatch),
      coordinatorsApi_login = (\<lambda>_ _. Inl NonError),
      studentsApi_login = (\<lambda>_ _. Inr \<lparr>success = True, payload = Some example_student\<rparr>)\<rparr>"

definition example_coordinator_at_officer_view :: app where
  "example_coordinator_at_officer_view =
     initial_app\<lparr>isLoggedIn := True,
                 currentUser := Some \<lparr>u_type = Coordinator,
                                       u_data = CoordinatorData example_coordinator\<rparr>,
                 currentView := VOfficer\<rparr>"

definition example_logged_in :: app where
  "example_logged_in =
     step (ALogin example_api_unreachable example_fallback_credentials) initial_app"

definition example_department :: department where
  "example_department =
     \<lparr>dept_id = ''D1'', dept_name = ''Physics'', dept_isActive = True,
      dept_createdAt = ''2025-01-01T00:00:00.000Z''\<rparr>"

definition example_load_programs_fail :: load_responses where
  "example_load_programs_fail =
     \<lparr>healthCheck = Inr (),
      programsData = Inl (JsError []),
      studentsData = Inr [example_student],
      coordinatorsData = Inr [example_coordinator],
      departmentsData = Inr [example_department],
      reportsData = Inr []\<rparr>"

definition example_student2 :: registered_student where
  "example_student2 =
     \<lparr>stu_id = ''S2'', stu_name = ''Chitra'', stu_email = ''chitra@example.org'',
      stu_phone = ''300'', stu_department = ''Chemistry'', stu_year = ''1'',
      stu_enrollmentNumber = ''E2'', stu_password = None,
      stu_createdAt = ''2025-01-03T00:00:00.000Z'', stu_profileImageUrl = None\<rparr>"

definition example_program :: program where
  "example_program =
     \<lparr>prog_id = ''P1'', prog_title = ''Blood donation camp'', prog_description = None,
      prog_type = ''community'', prog_startDate = ''2025-02-01T09:00:00.000Z'',
      prog_endDate = ''2025-02-01T11:00:00.000Z'', prog_maxParticipants = 100,
      prog_registrationOpen = True, prog_department = ''Physics'',
      prog_coordinator = ''Asha'', prog_participantIds = Some [''S1'', ''S2''],
      prog_createdAt = ''2025-01-05T00:00:00.000Z'', prog_date = Some ''2025-02-01'',
      prog_time = Some ''09:00'', prog_venue = Some ''Physics'',
      prog_coordinatorIds = Some [], prog_updatedAt = None, prog_students = None\<rparr>"

definition example_domain :: app where
  "example_domain =
     initial_app\<lparr>programs := [example_program],
                 registeredStudents := [example_student, example_student2],
                 coordinators := [example_coordinator],
                 departments := [example_department],
                 studentReports := [''S1'' \<mapsto> \<lparr>activities = [], coordinatedPrograms = []\<rparr>],
                 isLoading := False\<rparr>"

section \<open>Login\<close>

lemma find_None_list_ex: "(find P xs = None) = (\<not> list_ex P xs)"
  by (induction xs) auto

lemma officerBlock_None:
  "\<not> officerMatches a c s \<Longrightarrow> officerBlock a c s = None"
  by (cases "officersApi_login a (cred_id c) (cred_password c)")
     (auto simp add: officerBlock_def officerMatches_def positive_def unreachable_def
        fallbackMatches_def find_None_list_ex [symmetric] split: option.split)

lemma officerMatches_call [simp]:
  "officerMatches a c (call m s) = officerMatches a c s"
  by (simp add: officerMatches_def call_def)

lemma officerBlock_Some:
  assumes "officerMatches a c s"
  shows "\<exists>d. officerBlock a c s =
           Some (s\<lparr>currentUser := Some \<lparr>u_type = Officer, u_data = d\<rparr>,
                   isLoggedIn := True, currentView := VOfficer\<rparr>)"
proof (cases "officersApi_login a (cred_id c) (cred_password c)")
  case (Inl e)
  with assms have "find (\<lambda>oc. (cred_id c = oc_id oc \<or> cred_id c = oc_username oc)
                           \<and> cred_password c = oc_password oc) (officerCredentials s) \<noteq> None"
    by (simp add: officerMatches_def positive_def unreachable_def fallbackMatches_def
        find_None_list_ex)
  with Inl show ?thesis
    by (auto simp add: officerBlock_def)
next
  case (Inr r)
  with assms have "success r" "payload r \<noteq> None"
    by (simp_all add: officerMatches_def positive_def unreachable_def)
  with Inr show ?thesis
    by (auto simp add: officerBlock_def)
qed

lemma coordinatorBlock_None:
  "\<not> coordinatorMatches a c \<Longrightarrow> coordinatorBlock a c s = None"
  by (cases "coordinatorsApi_login a (cred_id c) (cred_password c)")
     (auto simp add: coordinatorBlock_def coordinatorMatches_def positive_def
        split: option.split)

lemma coordinatorBlock_Some:
  assumes "coordinatorMatches a c"
  shows "\<exists>d. coordinatorBlock a c s =
           Some (s\<lparr>currentUser := Some \<lparr>u_type = Coordinator, u_data = d\<rparr>,
                   isLoggedIn := True, currentView := VCoordinator\<rparr>)"
proof (cases "coordinatorsApi_login a (cred_id c) (cred_password c)")
  case (Inl e)
  with assms show ?thesis by (simp add: coordinatorMatches_def positive_def)
next
  case (Inr r)
  with assms have "success r" "payload r \<noteq> None"
    by (simp_all add: coordinatorMatches_def positive_def)
  with Inr show ?thesis
    by (auto simp add: coordinatorBlock_def)
qed

lemma studentBlock_None:
  "\<not> studentMatches a c \<Longrightarrow> studentBlock a c s = None"
  by (cases "studentsApi_login a (cred_id c) (cred_password c)")
     (auto simp add: studentBlock_def studentMatches_def positive_def
        split: option.split)

lemma studentBlock_Some:
  assumes "studentMatches a c"
  shows "\<exists>d. studentBlock a c s =
           Some (s\<lparr>currentUser := Some \<lparr>u_type = Student, u_data = d\<rparr>,
                   isLoggedIn := True, currentView := VStudent\<rparr>)"
proof (cases "studentsApi_login a (cred_id c) (cred_password c)")
  case (Inl e)
  with assms show ?thesis by (simp add: studentMatches_def positive_def)
next
  case (Inr r)
  with assms have "success r" "payload r \<noteq> None"
    by (simp_all add: studentMatches_def positive_def)
  with Inr show ?thesis
    by (auto simp add: studentBlock_def)
qed

lemma session_login [simp]:
  "session (s\<lparr>currentUser := Some \<lparr>u_type = r, u_data = d\<rparr>, isLoggedIn := True,
              currentView := v\<rparr>) = Some r"
  by (simp add: session_def)

lemma session_call [simp]: "session (call m s) = session s"
  by (simp add: session_def call_def)

lemma session_alert [simp]: "session (alert m s) = session s"
  by (simp add: session_def alert_def)

lemma handleLogin_officer:
  assumes m: "officerMatches a c s"
  shows "session (handleLogin a c s) = Some Officer
      \<and> currentView (handleLogin a c s) = VOfficer
      \<and> apiCalls (handleLogin a c s) = apiCalls s @ [''officersApi.login'']"
proof -
  from m have "officerMatches a c (call ''officersApi.login'' s)" by simp
  from officerBlock_Some [OF this] obtain d where
    "officerBlock a c (call ''officersApi.login'' s) =
       Some ((call ''officersApi.login'' s)\<lparr>currentUser := Some \<lparr>u_type = Officer, u_data = d\<rparr>,
                 isLoggedIn := True, currentView := VOfficer\<rparr>)" ..
  then show ?thesis
    by (simp add: handleLogin_def Let_def) (simp add: call_def)
qed

lemma handleLogin_coordinator:
  assumes n: "\<not> officerMatches a c s" and m: "coordinatorMatches a c"
  shows "session (handleLogin a c s) = Some Coordinator
      \<and> currentView (handleLogin a c s) = VCoordinator
      \<and> apiCalls (handleLogin a c s)
          = apiCalls s @ [''officersApi.login'', ''coordinatorsApi.login'']"
proof -
  from n have b: "officerBlock a c (call ''officersApi.login'' s) = None"
    by (simp add: officerBlock_None)
  from coordinatorBlock_Some [OF m] obtain d where
    "coordinatorBlock a c (call ''coordinatorsApi.login'' (call ''officersApi.login'' s)) =
       Some ((call ''coordinatorsApi.login'' (call ''officersApi.login'' s))
               \<lparr>currentUser := Some \<lparr>u_type = Coordinator, u_data = d\<rparr>,
                 isLoggedIn := True, currentView := VCoordinator\<rparr>)" ..
  with b show ?thesis
    by (simp add: handleLogin_def Let_def) (simp add: call_def)
qed

lemma handleLogin_student:
  assumes n: "\<not> officerMatches a c s" and n2: "\<not> coordinatorMatches a c"
    and m: "studentMatches a c"
  shows "session (handleLogin a c s) = Some Student
      \<and> currentView (handleLogin a c s) = VStudent
      \<and> apiCalls (handleLogin a c s)
          = apiCalls s @ [''officersApi.login'', ''coordinatorsApi.login'',
                          ''studentsApi.login'']"
proof -
  from n have b: "officerBlock a c (call ''officersApi.login'' s) = None"
    by (simp add: officerBlock_None)
  from n2 have b2: "coordinatorBlock a c
                      (call ''coordinatorsApi.login'' (call ''officersApi.login'' s)) = None"
    by (simp add: coordinatorBlock_None)
  from studentBlock_Some [OF m] obtain d where
    "studentBlock a c
       (call ''studentsApi.login''
         (call ''coordinatorsApi.login'' (call ''officersApi.login'' s))) =
       Some ((call ''studentsApi.login''
               (call ''coordinatorsApi.login'' (call ''officersApi.login'' s)))
               \<lparr>currentUser := Some \<lparr>u_type = Student, u_data = d\<rparr>,
                 isLoggedIn := True, currentView := VStudent\<rparr>)" ..
  with b b2 show ?thesis
    by (simp add: handleLogin_def Let_def) (simp add: call_def)
qed

lemma handleLogin_no_match:
  assumes "\<not> officerMatches a c s" "\<not> coordinatorMatches a c" "\<not> studentMatches a c"
  shows "handleLogin a c s =
           alert ''Invalid credentials''
             (call ''studentsApi.login''
               (call ''coordinatorsApi.login'' (call ''officersApi.login'' s)))"
  using assms
  by (simp add: handleLogin_def Let_def officerBlock_None coordinatorBlock_None
      studentBlock_None)

text \<open>
  Claim C1 (login precedence). The three verification paths are tried in the order
  officer, coordinator, student, and the first one that returns a positive match
  decides the session: the session role is officer when the officer path matches;
  coordinator when the officer path does not match and the coordinator path does;
  student when only the student path matches. The calls made are exactly those up to
  the deciding path. In particular, credentials that match both an officer and a
  coordinator record give an officer session.
\<close>

theorem login_precedence:
  "(officerMatches a c s \<longrightarrow>
      session (handleLogin a c s) = Some Officer
      \<and> currentView (handleLogin a c s) = VOfficer
      \<and> apiCalls (handleLogin a c s) = apiCalls s @ [''officersApi.login''])
   \<and> (\<not> officerMatches a c s \<and> coordinatorMatches a c \<longrightarrow>
      session (handleLogin a c s) = Some Coordinator
      \<and> currentView (handleLogin a c s) = VCoordinator
      \<and> apiCalls (handleLogin a c s)
          = apiCalls s @ [''officersApi.login'', ''coordinatorsApi.login''])
   \<and> (\<not> officerMatches a c s \<and> \<not> coordinatorMatches a c \<and> studentMatches a c \<longrightarrow>
      session (handleLogin a c s) = Some Student
      \<and> currentView (handleLogin a c s) = VStudent
      \<and> apiCalls (handleLogin a c s)
          = apiCalls s @ [''officersApi.login'', ''coordinatorsApi.login'',
                          ''studentsApi.login''])
   \<and> (officerMatches a c s \<and> coordinatorMatches a c \<longrightarrow>
      session (handleLogin a c s) = Some Officer)"
  using handleLogin_officer [of a c s] handleLogin_coordinator [of a c s]
    handleLogin_student [of a c s]
  by blast

section \<open>View routing\<close>

text \<open>
  Claim C2 (view routing). For every view and session the panel rendered is the one the
  specification's router selects: home, programs and login show their own panel whatever
  the session; student, coordinator and officer show the protected panel only to a
  session whose role is in {student}, {coordinator, officer}, {officer} respectively,
  and the login panel otherwise. In particular the officer view of a coordinator's
  session is the login panel.
\<close>

theorem view_routing:
  "renderCurrentView s = spec_route (currentView s) (session s)
   \<and> (currentView s = VOfficer \<and> session s = Some Coordinator \<longrightarrow>
        renderCurrentView s = LoginPage)"
proof -
  have r: "renderCurrentView s = spec_route (currentView s) (session s)"
    by (cases "currentView s"; cases "currentUser s"; cases "isLoggedIn s")
       (auto simp add: renderCurrentView_def spec_route_def session_def userTypeIs_def
          requiredRoles_def)
  then show ?thesis
    by (auto simp add: spec_route_def requiredRoles_def)
qed

section \<open>Session and inactivity timer\<close>

lemma clear_all:
  "list_all (\<lambda>t. fst t = h) ts \<Longrightarrow> filter (\<lambda>t. fst t \<noteq> h) ts = []"
  by (induction ts) auto

lemma resetLogoutTimer_True:
  assumes "single_timer s"
  shows "resetLogoutTimer True s =
           s\<lparr>logoutTimerRef := Some (Suc (lastHandle s)),
             timers := [(Suc (lastHandle s), now s + INACTIVITY_TIMEOUT)],
             lastHandle := Suc (lastHandle s)\<rparr>"
proof (cases "logoutTimerRef s")
  case None
  with assms have "timers s = []" by (simp add: single_timer_def)
  with None show ?thesis
    by (simp add: resetLogoutTimer_def setTimeout_def Let_def)
next
  case (Some h)
  with assms have "0 < h" "filter (\<lambda>t. fst t \<noteq> h) (timers s) = []"
    by (simp_all add: single_timer_def clear_all)
  with Some show ?thesis
    by (simp add: resetLogoutTimer_def setTimeout_def clearTimeout_def Let_def)
qed

lemma handleLogout_eq:
  assumes "single_timer s"
  shows "handleLogout s =
           s\<lparr>isLoggedIn := False, currentUser := None, currentView := VHome,
             logoutTimerRef := None, timers := []\<rparr>"
proof (cases "logoutTimerRef s")
  case None
  with assms have t: "timers s = []" by (simp add: single_timer_def)
  have "s\<lparr>isLoggedIn := False, currentUser := None, currentView := VHome,
           logoutTimerRef := logoutTimerRef s, timers := timers s\<rparr>
        = s\<lparr>isLoggedIn := False, currentUser := None, currentView := VHome\<rparr>"
    by simp
  with None t show ?thesis
    by (simp add: handleLogout_def Let_def)
next
  case (Some h)
  with assms have "0 < h" "filter (\<lambda>t. fst t \<noteq> h) (timers s) = []"
    by (simp_all add: single_timer_def clear_all)
  with Some show ?thesis
    by (simp add: handleLogout_def clearTimeout_def Let_def)
qed

lemma commit_handleLogout:
  assumes "single_timer s"
  shows "commit (handleLogout s) =
           s\<lparr>isLoggedIn := False, currentUser := None, currentView := VHome,
             logoutTimerRef := None, timers := [], listening := False\<rparr>"
proof (cases "listening s")
  case True
  then show ?thesis
    by (simp add: handleLogout_eq [OF assms] commit_def activityEffect_def
        activityCleanup_def Let_def)
next
  case False
  have "s\<lparr>isLoggedIn := False, currentUser := None, currentView := VHome,
           logoutTimerRef := None, timers := [], listening := listening s\<rparr>
        = s\<lparr>isLoggedIn := False, currentUser := None, currentView := VHome,
           logoutTimerRef := None, timers := []\<rparr>"
    by simp
  with False show ?thesis
    by (simp add: handleLogout_eq [OF assms] commit_def)
qed

lemma single_timer_cong:
  "logoutTimerRef s' = logoutTimerRef s \<Longrightarrow> timers s' = timers s \<Longrightarrow>
   lastHandle s' = lastHandle s \<Longrightarrow> single_timer s' = single_timer s"
  by (simp add: single_timer_def split: option.split)

lemma commit_inv:
  assumes "single_timer s" "listening s \<or> timers s = []"
  shows "session_inv (commit s)"
proof (cases "listening s = isLoggedIn s")
  case True
  with assms show ?thesis by (auto simp add: commit_def session_inv_def)
next
  case False
  show ?thesis
  proof (cases "isLoggedIn s")
    case True
    with False have c: "commit s = (resetLogoutTimer True s)\<lparr>listening := True\<rparr>"
      by (simp add: commit_def activityEffect_def)
    show ?thesis using True
      by (simp add: c resetLogoutTimer_True [OF assms(1)] session_inv_def single_timer_def)
  next
    case L: False
    with False have l: "listening s" by simp
    show ?thesis
    proof (cases "logoutTimerRef s")
      case None
      with assms(1) have "timers s = []" by (simp add: single_timer_def)
      with None L l show ?thesis
        by (simp add: commit_def activityEffect_def activityCleanup_def Let_def
            session_inv_def single_timer_def)
    next
      case (Some h)
      with assms(1) have "0 < h" "filter (\<lambda>t. fst t \<noteq> h) (timers s) = []"
        by (simp_all add: single_timer_def clear_all)
      with Some L l show ?thesis
        by (simp add: commit_def activityEffect_def activityCleanup_def Let_def
            clearTimeout_def session_inv_def single_timer_def)
    qed
  qed
qed

lemma officerBlock_shape:
  "officerBlock a c s = Some s' \<Longrightarrow>
   \<exists>u. s' = s\<lparr>currentUser := Some u, isLoggedIn := True, currentView := VOfficer\<rparr>"
  by (cases "officersApi_login a (cred_id c) (cred_password c)")
     (auto simp add: officerBlock_def split: option.splits if_splits)

lemma coordinatorBlock_shape:
  "coordinatorBlock a c s = Some s' \<Longrightarrow>
   \<exists>u. s' = s\<lparr>currentUser := Some u, isLoggedIn := True, currentView := VCoordinator\<rparr>"
  by (cases "coordinatorsApi_login a (cred_id c) (cred_password c)")
     (auto simp add: coordinatorBlock_def split: option.splits if_splits)

lemma studentBlock_shape:
  "studentBlock a c s = Some s' \<Longrightarrow>
   \<exists>u. s' = s\<lparr>currentUser := Some u, isLoggedIn := True, currentView := VStudent\<rparr>"
  by (cases "studentsApi_login a (cred_id c) (cred_password c)")
     (auto simp add: studentBlock_def split: option.splits if_splits)

lemma handleLogin_shape:
  "(\<exists>cs u v. handleLogin a c s =
       s\<lparr>apiCalls := cs, currentUser := Some u, isLoggedIn := True, currentView := v\<rparr>)
   \<or> (\<exists>cs al. handleLogin a c s = s\<lparr>apiCalls := cs, alerts := al\<rparr>)"
proof (cases "officerBlock a c (call ''officersApi.login'' s)")
  case (Some s')
  from officerBlock_shape [OF Some] obtain u where
    "s' = (call ''officersApi.login'' s)
            \<lparr>currentUser := Some u, isLoggedIn := True, currentView := VOfficer\<rparr>" ..
  with Some have "handleLogin a c s =
       s\<lparr>apiCalls := apiCalls s @ [''officersApi.login''], currentUser := Some u,
         isLoggedIn := True, currentView := VOfficer\<rparr>"
    by (simp add: handleLogin_def Let_def) (simp add: call_def)
  then show ?thesis by blast
next
  case None
  note b1 = None
  show ?thesis
  proof (cases "coordinatorBlock a c
                  (call ''coordinatorsApi.login'' (call ''officersApi.login'' s))")
    case (Some s')
    from coordinatorBlock_shape [OF Some] obtain u where
      "s' = (call ''coordinatorsApi.login'' (call ''officersApi.login'' s))
              \<lparr>currentUser := Some u, isLoggedIn := True, currentView := VCoordinator\<rparr>" ..
    with Some b1 have "handleLogin a c s =
         s\<lparr>apiCalls := apiCalls s @ [''officersApi.login'', ''coordinatorsApi.login''],
           currentUser := Some u, isLoggedIn := True, currentView := VCoordinator\<rparr>"
      by (simp add: handleLogin_def Let_def) (simp add: call_def)
    then show ?thesis by blast
  next
    case None
    note b2 = None
    show ?thesis
    proof (cases "studentBlock a c
                    (call ''studentsApi.login''
                      (call ''coordinatorsApi.login'' (call ''officersApi.login'' s)))")
      case (Some s')
      from studentBlock_shape [OF Some] obtain u where
        "s' = (call ''studentsApi.login''
                (call ''coordinatorsApi.login'' (call ''officersApi.login'' s)))
                \<lparr>currentUser := Some u, isLoggedIn := True, currentView := VStudent\<rparr>" ..
      with Some b1 b2 have "handleLogin a c s =
           s\<lparr>apiCalls := apiCalls s @ [''officersApi.login'', ''coordinatorsApi.login'',
                                        ''studentsApi.login''],
             currentUser := Some u, isLoggedIn := True, currentView := VStudent\<rparr>"
        by (simp add: handleLogin_def Let_def) (simp add: call_def)
      then show ?thesis by blast
    next
      case None
      with b1 b2 have "handleLogin a c s =
           s\<lparr>apiCalls := apiCalls s @ [''officersApi.login'', ''coordinatorsApi.login'',
                                        ''studentsApi.login''],
             alerts := alerts s @ [''Invalid credentials'']\<rparr>"
        by (simp add: handleLogin_def Let_def) (simp add: call_def alert_def)
      then show ?thesis by blast
    qed
  qed
qed

lemma handleLogin_frame:
  "timers (handleLogin a c s) = timers s \<and>
   logoutTimerRef (handleLogin a c s) = logoutTimerRef s \<and>
   lastHandle (handleLogin a c s) = lastHandle s \<and>
   listening (handleLogin a c s) = listening s \<and>
   now (handleLogin a c s) = now s"
  using handleLogin_shape [of a c s] by (elim disjE exE) simp_all

lemma step_login_inv:
  assumes "session_inv s"
  shows "session_inv (commit (handleLogin a c s))"
proof (rule commit_inv)
  from assms show "single_timer (handleLogin a c s)"
    by (simp add: single_timer_cong [of "handleLogin a c s" s] handleLogin_frame session_inv_def)
  from assms show "listening (handleLogin a c s) \<or> timers (handleLogin a c s) = []"
    by (auto simp add: handleLogin_frame session_inv_def)
qed

lemma step_logout_inv:
  assumes "session_inv s"
  shows "session_inv (commit (handleLogout s))"
proof -
  from assms have "single_timer s" by (simp add: session_inv_def)
  then show ?thesis
    by (simp add: commit_handleLogout session_inv_def single_timer_def)
qed

lemma dispatch_monitored:
  assumes "session_inv s" "isLoggedIn s" "ev \<in> set events"
  shows "dispatchEvent ev s =
           s\<lparr>logoutTimerRef := Some (Suc (lastHandle s)),
             timers := [(Suc (lastHandle s), now s + INACTIVITY_TIMEOUT)],
             lastHandle := Suc (lastHandle s)\<rparr>"
proof -
  from assms have "listening s" "single_timer s" by (simp_all add: session_inv_def)
  with assms(3) show ?thesis
    by (simp add: dispatchEvent_def handleUserActivity_def resetLogoutTimer_True)
qed

lemma step_event_inv:
  assumes "session_inv s"
  shows "session_inv (dispatchEvent ev s)"
proof (cases "listening s \<and> ev \<in> set events")
  case True
  with assms have "isLoggedIn s" by (simp add: session_inv_def)
  with True assms show ?thesis
    by (simp add: dispatch_monitored) (simp add: session_inv_def single_timer_def)
next
  case False
  with assms show ?thesis by (auto simp add: dispatchEvent_def)
qed

lemma step_tick_inv: "session_inv s \<Longrightarrow> session_inv (advance dt s)"
  by (simp add: session_inv_def advance_def single_timer_cong [of "s\<lparr>now := now s + dt\<rparr>" s])

lemma fire_eq:
  assumes "session_inv s" "map_of (timers s) h = Some d" "d \<le> now s"
  shows "timerExpires h s =
           s\<lparr>isLoggedIn := False, currentUser := None, currentView := VHome,
             logoutTimerRef := None, timers := [], listening := False,
             alerts := alerts s @
               [''You have been automatically logged out due to inactivity (30 minutes).'']\<rparr>"
proof -
  from assms(1) have st: "single_timer s" by (simp add: session_inv_def)
  from assms(2) have "(h, d) \<in> set (timers s)" by (rule map_of_SomeD)
  with st have r: "logoutTimerRef s = Some h" and "0 < h" and "h \<le> lastHandle s"
    and la: "list_all (\<lambda>t. fst t = h) (timers s)"
    by (auto simp add: single_timer_def list_all_iff split: option.splits)
  let ?s1 = "alert ''You have been automatically logged out due to inactivity (30 minutes).''
               (clearTimeout h s)"
  have "single_timer ?s1" using r \<open>0 < h\<close> \<open>h \<le> lastHandle s\<close> la
    by (simp add: single_timer_def alert_def clearTimeout_def clear_all)
  then have "commit (handleLogout ?s1) =
           ?s1\<lparr>isLoggedIn := False, currentUser := None, currentView := VHome,
             logoutTimerRef := None, timers := [], listening := False\<rparr>"
    by (rule commit_handleLogout)
  with assms(2,3) show ?thesis
    by (simp add: timerExpires_def handleAutoLogout_def) (simp add: alert_def clearTimeout_def)
qed

lemma step_timer_inv:
  assumes "session_inv s"
  shows "session_inv (timerExpires h s)"
proof (cases "map_of (timers s) h")
  case None
  with assms show ?thesis by (simp add: timerExpires_def)
next
  case (Some d)
  show ?thesis
  proof (cases "d \<le> now s")
    case True
    show ?thesis
      by (simp add: fire_eq [OF assms Some True]) (simp add: session_inv_def single_timer_def)
  next
    case False
    with Some assms show ?thesis by (simp add: timerExpires_def)
  qed
qed

lemma step_inv: "session_inv s \<Longrightarrow> session_inv (step a s)"
proof (cases a)
  case (AView v)
  assume "session_inv s"
  then show ?thesis unfolding AView
    by (simp add: session_inv_def single_timer_cong [of "s\<lparr>currentView := v\<rparr>" s])
qed (simp_all add: step_login_inv step_logout_inv step_event_inv step_tick_inv step_timer_inv)

lemma run_inv: "session_inv s \<Longrightarrow> session_inv (run as s)"
  by (induction as arbitrary: s) (simp_all add: step_inv)

lemma initial_inv: "session_inv initial_app"
  by (simp add: session_inv_def single_timer_def initial_app_def)

text \<open>
  Claim C3 (idle timer rearmed). The timeout is 1,800,000 ms. After any non-empty
  sequence of monitored events (mousedown, mousemove, keypress, scroll, touchstart,
  click), each at any later time, on a logged-in application, the time remaining on the
  idle timer is the full timeout, and that timer is the only pending one. Each
  monitored event clears the handle that was held: it is no longer pending and the
  handle held afterwards is a different one.
\<close>

theorem idle_timer_rearmed:
  assumes "session_inv s" and "isLoggedIn s" and "evs \<noteq> []"
    and "\<forall>e \<in> set evs. snd e \<in> set events"
  shows "INACTIVITY_TIMEOUT = 1800000
     \<and> remaining (activity evs s) = Some INACTIVITY_TIMEOUT
     \<and> (\<exists>h. logoutTimerRef (activity evs s) = Some h
            \<and> timers (activity evs s) = [(h, now (activity evs s) + INACTIVITY_TIMEOUT)])
     \<and> isLoggedIn (activity evs s)
     \<and> (\<forall>ev \<in> set events. \<forall>h0. logoutTimerRef s = Some h0 \<longrightarrow>
            h0 \<notin> fst ` set (timers (dispatchEvent ev s))
            \<and> logoutTimerRef (dispatchEvent ev s) \<noteq> Some h0)"
proof -
  have one: "session_inv (dispatchEvent ev (advance dt t))
       \<and> isLoggedIn (dispatchEvent ev (advance dt t))
       \<and> logoutTimerRef (dispatchEvent ev (advance dt t)) = Some (Suc (lastHandle t))
       \<and> timers (dispatchEvent ev (advance dt t))
           = [(Suc (lastHandle t), now (dispatchEvent ev (advance dt t)) + INACTIVITY_TIMEOUT)]"
    if "session_inv t" "isLoggedIn t" "ev \<in> set events" for t ev dt
  proof -
    from that have "session_inv (advance dt t)" "isLoggedIn (advance dt t)"
      by (simp_all add: step_tick_inv) (simp add: advance_def)
    from dispatch_monitored [OF this that(3)] step_event_inv [OF this(1), of ev] that(2)
    show ?thesis
      by (simp add: advance_def)
  qed
  have seq: "session_inv t \<Longrightarrow> isLoggedIn t \<Longrightarrow> es \<noteq> [] \<Longrightarrow>
       \<forall>e \<in> set es. snd e \<in> set events \<Longrightarrow>
       isLoggedIn (activity es t)
       \<and> (\<exists>h. logoutTimerRef (activity es t) = Some h
              \<and> timers (activity es t) = [(h, now (activity es t) + INACTIVITY_TIMEOUT)])"
    for es t
  proof (induction es arbitrary: t)
    case Nil
    then show ?case by simp
  next
    case (Cons e es)
    obtain dt ev where e: "e = (dt, ev)" by (cases e)
    with Cons.prems have ev: "ev \<in> set events" by simp
    note o = one [OF Cons.prems(1,2) ev, of dt]
    show ?case
    proof (cases "es = []")
      case True
      with e o show ?thesis by simp
    next
      case False
      with Cons.prems have "\<forall>e \<in> set es. snd e \<in> set events" by simp
      with Cons.IH [of "dispatchEvent ev (advance dt t)"] o False e show ?thesis by simp
    qed
  qed
  from seq [OF assms] obtain h where
    h: "logoutTimerRef (activity evs s) = Some h"
       "timers (activity evs s) = [(h, now (activity evs s) + INACTIVITY_TIMEOUT)]"
    and l: "isLoggedIn (activity evs s)" by blast
  from h have r: "remaining (activity evs s) = Some INACTIVITY_TIMEOUT"
    by (simp add: remaining_def)
  have old: "h0 \<notin> fst ` set (timers (dispatchEvent ev s))
            \<and> logoutTimerRef (dispatchEvent ev s) \<noteq> Some h0"
    if "ev \<in> set events" "logoutTimerRef s = Some h0" for ev h0
  proof -
    from assms(1) that(2) have "h0 \<le> lastHandle s"
      by (simp add: session_inv_def single_timer_def)
    then show ?thesis
      by (simp add: dispatch_monitored [OF assms(1,2) that(1)])
  qed
  have "INACTIVITY_TIMEOUT = 1800000" by (simp add: INACTIVITY_TIMEOUT_def)
  with r h l old show ?thesis by blast
qed

text \<open>
  Claim C4 (timer cancelled on logout). An explicit logout and the logout run by an
  expired timer both leave no timeout pending and the handle cleared; and in every
  state reached from a well-formed one by any sequence of actions, if the application
  is logged out then nothing is pending, so that no timer fires (an expiry does
  nothing).
\<close>

theorem logout_cancels_timer:
  assumes "session_inv s"
  shows "timers (handleLogout s) = [] \<and> logoutTimerRef (handleLogout s) = None
     \<and> \<not> isLoggedIn (handleLogout s)
     \<and> (\<forall>h. timers (handleAutoLogout (clearTimeout h s)) = []
            \<and> logoutTimerRef (handleAutoLogout (clearTimeout h s)) = None
            \<and> \<not> isLoggedIn (handleAutoLogout (clearTimeout h s)))
     \<and> (\<forall>as. \<not> isLoggedIn (run as s) \<longrightarrow>
            timers (run as s) = [] \<and> (\<forall>h. timerExpires h (run as s) = run as s))"
proof -
  from assms have st: "single_timer s" by (simp add: session_inv_def)
  have a: "timers (handleLogout s) = [] \<and> logoutTimerRef (handleLogout s) = None
     \<and> \<not> isLoggedIn (handleLogout s)"
    by (simp add: handleLogout_eq [OF st])
  have b: "timers (handleAutoLogout (clearTimeout h s)) = []
            \<and> logoutTimerRef (handleAutoLogout (clearTimeout h s)) = None
            \<and> \<not> isLoggedIn (handleAutoLogout (clearTimeout h s))" for h
  proof -
    have "single_timer
            (alert ''You have been automatically logged out due to inactivity (30 minutes).''
               (clearTimeout h s))"
      using st by (auto simp add: single_timer_def alert_def clearTimeout_def list_all_iff
          split: option.splits)
    from handleLogout_eq [OF this] show ?thesis
      by (simp add: handleAutoLogout_def)
  qed
  have c: "timers (run as s) = [] \<and> (\<forall>h. timerExpires h (run as s) = run as s)"
    if "\<not> isLoggedIn (run as s)" for as
  proof -
    from run_inv [OF assms, of as] that have "timers (run as s) = []"
      by (simp add: session_inv_def)
    then show ?thesis by (simp add: timerExpires_def)
  qed
  from a b c show ?thesis by blast
qed

text \<open>
  Claim C5 (timeout behaviour). When the idle timer expires on a logged-in application,
  the state reached is the one an explicit logout reaches, with exactly one more alert,
  the inactivity notice: not logged in, no current user, the home view, no handle held,
  nothing pending. No second expiry can follow.
\<close>

theorem timeout_is_logout_with_one_alert:
  assumes "session_inv s" and "isLoggedIn s"
    and "map_of (timers s) h = Some deadline" and "deadline \<le> now s"
  shows "timerExpires h s =
           (step ALogout s)\<lparr>alerts := alerts s @
              [''You have been automatically logged out due to inactivity (30 minutes).'']\<rparr>
     \<and> alerts (step ALogout s) = alerts s
     \<and> \<not> isLoggedIn (timerExpires h s) \<and> currentUser (timerExpires h s) = None
     \<and> currentView (timerExpires h s) = VHome \<and> logoutTimerRef (timerExpires h s) = None
     \<and> timers (timerExpires h s) = []
     \<and> (\<forall>h'. timerExpires h' (timerExpires h s) = timerExpires h s)"
proof -
  from assms(1) have st: "single_timer s" by (simp add: session_inv_def)
  note f = fire_eq [OF assms(1,3,4)]
  have "timers (timerExpires h s) = []" by (simp add: f)
  then have "timerExpires h' (timerExpires h s) = timerExpires h s" for h'
    by (simp add: timerExpires_def [of h'])
  then show ?thesis
    by (simp add: commit_handleLogout [OF st]) (simp add: f)
qed

section \<open>CRUD failures\<close>

lemma failed_call:
  "domainState (alert m (call c s)) = domainState s
   \<and> alerts (alert m (call c s)) = alerts s @ [m]"
  by (simp add: domainState_def alert_def call_def)

lemma handleAddProgram_failure:
  "handleAddProgram f pd (Inl e) s =
     alert ''Failed to add program. Please try again.'' (call ''programsApi.create'' s)"
  by (simp add: handleAddProgram_def Let_def)

lemma handleEditProgram_failure:
  "handleEditProgram i pd (Inl e) s =
     alert ''Failed to edit program. Please try again.'' (call ''programsApi.update'' s)"
  by (simp add: handleEditProgram_def Let_def)

lemma handleDeleteProgram_failure:
  "handleDeleteProgram i (Inl e) s =
     alert ''Failed to delete program. Please try again.'' (call ''programsApi.delete'' s)"
  by (simp add: handleDeleteProgram_def Let_def)

lemma handleAddStudent_failure:
  "handleAddStudent (Inl e) s =
     alert ''Failed to add student. Please try again.'' (call ''studentsApi.create'' s)"
  by (simp add: handleAddStudent_def Let_def)

lemma handleEditStudent_failure:
  "handleEditStudent i (Inl e) s =
     alert ''Failed to edit student. Please try again.'' (call ''studentsApi.update'' s)"
  by (simp add: handleEditStudent_def Let_def)

lemma handleDeleteStudent_failure:
  "handleDeleteStudent i (Inl e) rr s =
     alert ''Failed to delete student. Please try again.'' (call ''studentsApi.delete'' s)"
  by (simp add: handleDeleteStudent_def Let_def)

lemma handleAddCoordinator_failure:
  "handleAddCoordinator (Inl e) s =
     alert ''Failed to add coordinator. Please try again.'' (call ''coordinatorsApi.create'' s)"
  by (simp add: handleAddCoordinator_def Let_def)

lemma handleEditCoordinator_failure:
  "handleEditCoordinator i (Inl e) s =
     alert ''Failed to edit coordinator. Please try again.'' (call ''coordinatorsApi.update'' s)"
  by (simp add: handleEditCoordinator_def Let_def)

lemma handleDeleteCoordinator_failure:
  "handleDeleteCoordinator i (Inl e) s =
     alert ''Failed to delete coordinator. Please try again.'' (call ''coordinatorsApi.delete'' s)"
  by (simp add: handleDeleteCoordinator_def Let_def)

lemma handleToggleCoordinatorAccess_failure:
  "handleToggleCoordinatorAccess i (Inl e) s =
     (if find (\<lambda>c. coord_id c = i) (coordinators s) = None then s
      else alert ''Failed to update coordinator access. Please try again.''
             (call ''coordinatorsApi.update'' s))"
  by (simp add: handleToggleCoordinatorAccess_def Let_def split: option.split)

lemma handleAddDepartment_failure:
  "handleAddDepartment (Inl e) s =
     alert ''Failed to add department. Please try again.'' (call ''departmentsApi.create'' s)"
  by (simp add: handleAddDepartment_def Let_def)

lemma handleEditDepartment_failure:
  "handleEditDepartment i n (Inl e) s =
     (if find (\<lambda>d. dept_id d = i) (departments s) = None then s
      else alert ''Failed to edit department. Please try again.''
             (call ''departmentsApi.update'' s))"
  by (simp add: handleEditDepartment_def Let_def split: option.split)

lemma handleToggleDepartment_failure:
  "handleToggleDepartment i (Inl e) s =
     (if find (\<lambda>d. dept_id d = i) (departments s) = None then s
      else alert ''Failed to update department status. Please try again.''
             (call ''departmentsApi.update'' s))"
  by (simp add: handleToggleDepartment_def Let_def split: option.split)

lemmas crud_failure =
  handleAddProgram_failure handleEditProgram_failure handleDeleteProgram_failure
  handleAddStudent_failure handleEditStudent_failure handleDeleteStudent_failure
  handleAddCoordinator_failure handleEditCoordinator_failure handleDeleteCoordinator_failure
  handleToggleCoordinatorAccess_failure handleAddDepartment_failure
  handleEditDepartment_failure handleToggleDepartment_failure


lemma map_if_replaced:
  assumes "\<And>x. g (u x) = v"
  shows "\<forall>p \<in> set (map (\<lambda>x. if k x = i then u x else x) ps). k p = i \<longrightarrow> g p = v"
proof (induction ps)
  case Nil
  show ?case by simp
next
  case (Cons a ps)
  have "k (if k a = i then u a else a) = i \<longrightarrow> g (if k a = i then u a else a) = v"
    by (simp add: assms)
  with Cons show ?case by (simp del: set_map)
qed

lemma participants_replaced:
  "\<forall>p \<in> set (programs (handleAddParticipants t i ids s)).
     prog_id p = i \<longrightarrow> prog_participantIds p = Some ids"
proof -
  have eq: "programs (handleAddParticipants t i ids s) =
          map (\<lambda>program. if prog_id program = i
                          then program\<lparr>prog_participantIds := Some ids,
                                       prog_updatedAt := Some t\<rparr>
                          else program) (programs s)"
    by (simp add: handleAddParticipants_def)
  show ?thesis unfolding eq by (rule map_if_replaced) simp
qed

text \<open>
  Claim C8 (CRUD failure atomicity). When the create, update or delete call of a
  handler for programs, students, coordinators or departments fails, the programs,
  students, coordinators, departments and reports held locally are what they were, and
  one alert naming the failed action is shown. (The two toggle handlers and the
  department edit call the server, and so can fail, only when the record exists
  locally.) A participant-list edit is applied to the local programs at once, with no
  call and no alert, so that no failure can undo it.
\<close>

theorem crud_failure_atomic:
  "domainState (handleAddProgram f pd (Inl e) s) = domainState s
   \<and> alerts (handleAddProgram f pd (Inl e) s)
       = alerts s @ [''Failed to add program. Please try again.'']
   \<and> domainState (handleEditProgram i pd (Inl e) s) = domainState s
   \<and> alerts (handleEditProgram i pd (Inl e) s)
       = alerts s @ [''Failed to edit program. Please try again.'']
   \<and> domainState (handleDeleteProgram i (Inl e) s) = domainState s
   \<and> alerts (handleDeleteProgram i (Inl e) s)
       = alerts s @ [''Failed to delete program. Please try again.'']
   \<and> domainState (handleAddStudent (Inl e) s) = domainState s
   \<and> alerts (handleAddStudent (Inl e) s)
       = alerts s @ [''Failed to add student. Please try again.'']
   \<and> domainState (handleEditStudent i (Inl e) s) = domainState s
   \<and> alerts (handleEditStudent i (Inl e) s)
       = alerts s @ [''Failed to edit student. Please try again.'']
   \<and> domainState (handleDeleteStudent i (Inl e) rr s) = domainState s
   \<and> alerts (handleDeleteStudent i (Inl e) rr s)
       = alerts s @ [''Failed to delete student. Please try again.'']
   \<and> domainState (handleAddCoordinator (Inl e) s) = domainState s
   \<and> alerts (handleAddCoordinator (Inl e) s)
       = alerts s @ [''Failed to add coordinator. Please try again.'']
   \<and> domainState (handleEditCoordinator i (Inl e) s) = domainState s
   \<and> alerts (handleEditCoordinator i (Inl e) s)
       = alerts s @ [''Failed to edit coordinator. Please try again.'']
   \<and> domainState (handleDeleteCoordinator i (Inl e) s) = domainState s
   \<and> alerts (handleDeleteCoordinator i (Inl e) s)
       = alerts s @ [''Failed to delete coordinator. Please try again.'']
   \<and> domainState (handleToggleCoordinatorAccess i (Inl e) s) = domainState s
   \<and> (find (\<lambda>c. coord_id c = i) (coordinators s) \<noteq> None \<longrightarrow>
        alerts (handleToggleCoordinatorAccess i (Inl e) s)
          = alerts s @ [''Failed to update coordinator access. Please try again.''])
   \<and> domainState (handleAddDepartment (Inl e) s) = domainState s
   \<and> alerts (handleAddDepartment (Inl e) s)
       = alerts s @ [''Failed to add department. Please try again.'']
   \<and> domainState (handleEditDepartment i n (Inl e) s) = domainState s
   \<and> (find (\<lambda>d. dept_id d = i) (departments s) \<noteq> None \<longrightarrow>
        alerts (handleEditDepartment i n (Inl e) s)
          = alerts s @ [''Failed to edit department. Please try again.''])
   \<and> domainState (handleToggleDepartment i (Inl e) s) = domainState s
   \<and> (find (\<lambda>d. dept_id d = i) (departments s) \<noteq> None \<longrightarrow>
        alerts (handleToggleDepartment i (Inl e) s)
          = alerts s @ [''Failed to update department status. Please try again.''])
   \<and> (\<forall>p \<in> set (programs (handleAddParticipants t i ids s)).
          prog_id p = i \<longrightarrow> prog_participantIds p = Some ids)
   \<and> apiCalls (handleAddParticipants t i ids s) = apiCalls s
   \<and> alerts (handleAddParticipants t i ids s) = alerts s"
proof -
  have "domainState (handleAddProgram f pd (Inl e) s) = domainState s"
    and "alerts (handleAddProgram f pd (Inl e) s)
       = alerts s @ [''Failed to add program. Please try again.'']"
    unfolding handleAddProgram_failure by (simp_all only: failed_call)
  have "domainState (handleEditProgram i pd (Inl e) s) = domainState s"
    and "alerts (handleEditProgram i pd (Inl e) s)
       = alerts s @ [''Failed to edit program. Please try again.'']"
    unfolding handleEditProgram_failure by (simp_all only: failed_call)
  have "domainState (handleDeleteProgram i (Inl e) s) = domainState s"
    and "alerts (handleDeleteProgram i (Inl e) s)
       = alerts s @ [''Failed to delete program. Please try again.'']"
    unfolding handleDeleteProgram_failure by (simp_all only: failed_call)
  have "domainState (handleAddStudent (Inl e) s) = domainState s"
    and "alerts (handleAddStudent (Inl e) s)
       = alerts s @ [''Failed to add student. Please try again.'']"
    unfolding handleAddStudent_failure by (simp_all only: failed_call)
  have "domainState (handleEditStudent i (Inl e) s) = domainState s"
    and "alerts (handleEditStudent i (Inl e) s)
       = alerts s @ [''Failed to edit student. Please try again.'']"
    unfolding handleEditStudent_failure by (simp_all only: failed_call)
  have "domainState (handleDeleteStudent i (Inl e) rr s) = domainState s"
    and "alerts (handleDeleteStudent i (Inl e) rr s)
       = alerts s @ [''Failed to delete student. Please try again.'']"
    unfolding handleDeleteStudent_failure by (simp_all only: failed_call)
  have "domainState (handleAddCoordinator (Inl e) s) = domainState s"
    and "alerts (handleAddCoordinator (Inl e) s)
       = alerts s @ [''Failed to add coordinator. Please try again.'']"
    unfolding handleAddCoordinator_failure by (simp_all only: failed_call)
  have "domainState (handleEditCoordinator i (Inl e) s) = domainState s"
    and "alerts (handleEditCoordinator i (Inl e) s)
       = alerts s @ [''Failed to edit coordinator. Please try again.'']"
    unfolding handleEditCoordinator_failure by (simp_all only: failed_call)
  have "domainState (handleDeleteCoordinator i (Inl e) s) = domainState s"
    and "alerts (handleDeleteCoordinator i (Inl e) s)
       = alerts s @ [''Failed to delete coordinator. Please try again.'']"
    unfolding handleDeleteCoordinator_failure by (simp_all only: failed_call)
  have "domainState (handleAddDepartment (Inl e) s) = domainState s"
    and "alerts (handleAddDepartment (Inl e) s)
       = alerts s @ [''Failed to add department. Please try again.'']"
    unfolding handleAddDepartment_failure by (simp_all only: failed_call)
  have "domainState (handleToggleCoordinatorAccess i (Inl e) s) = domainState s"
    and "find (\<lambda>c. coord_id c = i) (coordinators s) \<noteq> None \<longrightarrow>
        alerts (handleToggleCoordinatorAccess i (Inl e) s)
          = alerts s @ [''Failed to update coordinator access. Please try again.'']"
    unfolding handleToggleCoordinatorAccess_failure
    by (cases "find (\<lambda>c. coord_id c = i) (coordinators s)"; simp only: failed_call if_True if_False option.simps simp_thms)+
  have "domainState (handleEditDepartment i n (Inl e) s) = domainState s"
    and "find (\<lambda>d. dept_id d = i) (departments s) \<noteq> None \<longrightarrow>
        alerts (handleEditDepartment i n (Inl e) s)
          = alerts s @ [''Failed to edit department. Please try again.'']"
    unfolding handleEditDepartment_failure
    by (cases "find (\<lambda>d. dept_id d = i) (departments s)"; simp only: failed_call if_True if_False option.simps simp_thms)+
  have "domainState (handleToggleDepartment i (Inl e) s) = domainState s"
    and "find (\<lambda>d. dept_id d = i) (departments s) \<noteq> None \<longrightarrow>
        alerts (handleToggleDepartment i (Inl e) s)
          = alerts s @ [''Failed to update department status. Please try again.'']"
    unfolding handleToggleDepartment_failure
    by (cases "find (\<lambda>d. dept_id d = i) (departments s)"; simp only: failed_call if_True if_False option.simps simp_thms)+
  have "\<forall>p \<in> set (programs (handleAddParticipants t i ids s)).
          prog_id p = i \<longrightarrow> prog_participantIds p = Some ids"
    by (rule participants_replaced)
  have "apiCalls (handleAddParticipants t i ids s) = apiCalls s"
    and "alerts (handleAddParticipants t i ids s) = alerts s"
    by (simp_all add: handleAddParticipants_def)
  show ?thesis
    by (intro conjI; fact)
qed

section \<open>Login failures\<close>

lemma officerBlock_noMatch:
  "officerBlock (a\<lparr>officersApi_login := (\<lambda>_ _. noMatch)\<rparr>) c s = None"
  by (simp add: officerBlock_def noMatch_def)

lemma coordinatorBlock_noMatch:
  "coordinatorBlock (a\<lparr>coordinatorsApi_login := (\<lambda>_ _. noMatch)\<rparr>) c s = None"
  by (simp add: coordinatorBlock_def noMatch_def)

lemma studentBlock_noMatch:
  "studentBlock (a\<lparr>studentsApi_login := (\<lambda>_ _. noMatch)\<rparr>) c s = None"
  by (simp add: studentBlock_def noMatch_def)

lemma blocks_other_api:
  "officerBlock (a\<lparr>coordinatorsApi_login := f\<rparr>) c s = officerBlock a c s"
  "officerBlock (a\<lparr>studentsApi_login := g\<rparr>) c s = officerBlock a c s"
  "coordinatorBlock (a\<lparr>officersApi_login := h\<rparr>) c s = coordinatorBlock a c s"
  "coordinatorBlock (a\<lparr>studentsApi_login := g\<rparr>) c s = coordinatorBlock a c s"
  "studentBlock (a\<lparr>officersApi_login := h\<rparr>) c s = studentBlock a c s"
  "studentBlock (a\<lparr>coordinatorsApi_login := f\<rparr>) c s = studentBlock a c s"
  by (simp_all add: officerBlock_def coordinatorBlock_def studentBlock_def)

lemma unreachable_not_positive: "unreachable x \<Longrightarrow> \<not> positive x"
  by (cases x) (simp_all add: unreachable_def positive_def)

lemma calls_after_officer:
  assumes "officerBlock a c (call ''officersApi.login'' s) = None"
  shows "\<exists>rest. apiCalls (handleLogin a c s)
           = apiCalls s @ [''officersApi.login'', ''coordinatorsApi.login''] @ rest"
proof (cases "coordinatorBlock a c
                (call ''coordinatorsApi.login'' (call ''officersApi.login'' s))")
  case (Some s')
  from coordinatorBlock_shape [OF Some] obtain u where
    "s' = (call ''coordinatorsApi.login'' (call ''officersApi.login'' s))
            \<lparr>currentUser := Some u, isLoggedIn := True, currentView := VCoordinator\<rparr>" ..
  with Some assms have "apiCalls (handleLogin a c s)
       = apiCalls s @ [''officersApi.login'', ''coordinatorsApi.login''] @ []"
    by (simp add: handleLogin_def Let_def) (simp add: call_def)
  then show ?thesis by blast
next
  case None
  note b2 = None
  show ?thesis
  proof (cases "studentBlock a c
                  (call ''studentsApi.login''
                    (call ''coordinatorsApi.login'' (call ''officersApi.login'' s)))")
    case (Some s')
    from studentBlock_shape [OF Some] obtain u where
      "s' = (call ''studentsApi.login''
              (call ''coordinatorsApi.login'' (call ''officersApi.login'' s)))
              \<lparr>currentUser := Some u, isLoggedIn := True, currentView := VStudent\<rparr>" ..
    with Some assms b2 have "apiCalls (handleLogin a c s)
         = apiCalls s @ [''officersApi.login'', ''coordinatorsApi.login''] @ [''studentsApi.login'']"
      by (simp add: handleLogin_def Let_def) (simp add: call_def)
    then show ?thesis by blast
  next
    case None
    with assms b2 have "apiCalls (handleLogin a c s)
         = apiCalls s @ [''officersApi.login'', ''coordinatorsApi.login''] @ [''studentsApi.login'']"
      by (simp add: handleLogin_def Let_def) (simp add: call_def alert_def)
    then show ?thesis by blast
  qed
qed

lemma calls_after_coordinator:
  assumes "officerBlock a c (call ''officersApi.login'' s) = None"
    and "coordinatorBlock a c
           (call ''coordinatorsApi.login'' (call ''officersApi.login'' s)) = None"
  shows "apiCalls (handleLogin a c s)
           = apiCalls s @ [''officersApi.login'', ''coordinatorsApi.login'', ''studentsApi.login'']"
proof (cases "studentBlock a c
                (call ''studentsApi.login''
                  (call ''coordinatorsApi.login'' (call ''officersApi.login'' s)))")
  case (Some s')
  from studentBlock_shape [OF Some] obtain u where
    "s' = (call ''studentsApi.login''
            (call ''coordinatorsApi.login'' (call ''officersApi.login'' s)))
            \<lparr>currentUser := Some u, isLoggedIn := True, currentView := VStudent\<rparr>" ..
  with Some assms show ?thesis
    by (simp add: handleLogin_def Let_def) (simp add: call_def)
next
  case None
  with assms show ?thesis
    by (simp add: handleLogin_def Let_def) (simp add: call_def alert_def)
qed

text \<open>
  Claim C7 (login failure handling), as amended. A coordinator or student path that
  cannot reach its source is treated exactly as one that answered ``no match'', and the
  next path is attempted. An officer path that cannot reach its source first checks the
  fallback officer credentials held locally: if one matches, the session becomes an
  officer session and no other path is attempted; if none matches, the failure is
  treated as no match and the coordinator path is attempted. If no path matches, the
  alert ``Invalid credentials'' is shown once, each source has been called once, and
  the session and the domain state are unchanged.
\<close>

theorem login_failure_handling:
  "(unreachable (officersApi_login a (cred_id c) (cred_password c))
      \<and> \<not> fallbackMatches c (officerCredentials s) \<longrightarrow>
      handleLogin a c s = handleLogin (a\<lparr>officersApi_login := (\<lambda>_ _. noMatch)\<rparr>) c s
      \<and> (\<exists>rest. apiCalls (handleLogin a c s)
             = apiCalls s @ [''officersApi.login'', ''coordinatorsApi.login''] @ rest))
   \<and> (unreachable (officersApi_login a (cred_id c) (cred_password c))
      \<and> fallbackMatches c (officerCredentials s) \<longrightarrow>
      session (handleLogin a c s) = Some Officer
      \<and> apiCalls (handleLogin a c s) = apiCalls s @ [''officersApi.login''])
   \<and> (unreachable (coordinatorsApi_login a (cred_id c) (cred_password c)) \<longrightarrow>
      handleLogin a c s = handleLogin (a\<lparr>coordinatorsApi_login := (\<lambda>_ _. noMatch)\<rparr>) c s
      \<and> (\<not> officerMatches a c s \<longrightarrow>
           apiCalls (handleLogin a c s)
             = apiCalls s @ [''officersApi.login'', ''coordinatorsApi.login'',
                             ''studentsApi.login'']))
   \<and> (unreachable (studentsApi_login a (cred_id c) (cred_password c)) \<longrightarrow>
      handleLogin a c s = handleLogin (a\<lparr>studentsApi_login := (\<lambda>_ _. noMatch)\<rparr>) c s)
   \<and> (\<not> officerMatches a c s \<and> \<not> coordinatorMatches a c \<and> \<not> studentMatches a c \<longrightarrow>
      alerts (handleLogin a c s) = alerts s @ [''Invalid credentials'']
      \<and> isLoggedIn (handleLogin a c s) = isLoggedIn s
      \<and> currentUser (handleLogin a c s) = currentUser s
      \<and> currentView (handleLogin a c s) = currentView s
      \<and> domainState (handleLogin a c s) = domainState s
      \<and> apiCalls (handleLogin a c s)
          = apiCalls s @ [''officersApi.login'', ''coordinatorsApi.login'',
                          ''studentsApi.login''])"
proof -
  have p1: "handleLogin a c s = handleLogin (a\<lparr>officersApi_login := (\<lambda>_ _. noMatch)\<rparr>) c s
      \<and> (\<exists>rest. apiCalls (handleLogin a c s)
             = apiCalls s @ [''officersApi.login'', ''coordinatorsApi.login''] @ rest)"
    if u: "unreachable (officersApi_login a (cred_id c) (cred_password c))"
      and n: "\<not> fallbackMatches c (officerCredentials s)"
  proof -
    from u n have "\<not> officerMatches a c s"
      by (simp add: officerMatches_def unreachable_not_positive)
    then have "\<not> officerMatches a c (call ''officersApi.login'' s)"
      by simp
    then have b: "officerBlock a c (call ''officersApi.login'' s) = None"
      by (rule officerBlock_None)
    then have "handleLogin a c s = handleLogin (a\<lparr>officersApi_login := (\<lambda>_ _. noMatch)\<rparr>) c s"
      by (simp add: handleLogin_def Let_def officerBlock_noMatch blocks_other_api
          cong: option.case_cong)
    with calls_after_officer [OF b] show ?thesis by simp
  qed
  have p2: "session (handleLogin a c s) = Some Officer
      \<and> apiCalls (handleLogin a c s) = apiCalls s @ [''officersApi.login'']"
    if u: "unreachable (officersApi_login a (cred_id c) (cred_password c))"
      and f: "fallbackMatches c (officerCredentials s)"
  proof -
    from u f have "officerMatches a c s" by (simp add: officerMatches_def)
    from handleLogin_officer [OF this] show ?thesis by simp
  qed
  have p3: "handleLogin a c s = handleLogin (a\<lparr>coordinatorsApi_login := (\<lambda>_ _. noMatch)\<rparr>) c s
      \<and> (\<not> officerMatches a c s \<longrightarrow>
           apiCalls (handleLogin a c s)
             = apiCalls s @ [''officersApi.login'', ''coordinatorsApi.login'',
                             ''studentsApi.login''])"
    if u: "unreachable (coordinatorsApi_login a (cred_id c) (cred_password c))"
  proof -
    from u have "\<not> coordinatorMatches a c"
      by (simp add: coordinatorMatches_def unreachable_not_positive)
    then have b: "coordinatorBlock a c
           (call ''coordinatorsApi.login'' (call ''officersApi.login'' s)) = None"
      by (rule coordinatorBlock_None)
    then have e: "handleLogin a c s
                = handleLogin (a\<lparr>coordinatorsApi_login := (\<lambda>_ _. noMatch)\<rparr>) c s"
      by (simp add: handleLogin_def Let_def coordinatorBlock_noMatch blocks_other_api
          cong: option.case_cong)
    have "apiCalls (handleLogin a c s)
             = apiCalls s @ [''officersApi.login'', ''coordinatorsApi.login'',
                             ''studentsApi.login'']" if "\<not> officerMatches a c s"
    proof -
      from that have "officerBlock a c (call ''officersApi.login'' s) = None"
        by (simp add: officerBlock_None)
      from calls_after_coordinator [OF this b] show ?thesis .
    qed
    with e show ?thesis by simp
  qed
  have p4: "handleLogin a c s = handleLogin (a\<lparr>studentsApi_login := (\<lambda>_ _. noMatch)\<rparr>) c s"
    if u: "unreachable (studentsApi_login a (cred_id c) (cred_password c))"
  proof -
    from u have "\<not> studentMatches a c"
      by (simp add: studentMatches_def unreachable_not_positive)
    then have b: "studentBlock a c s' = None" for s'
      by (rule studentBlock_None)
    show ?thesis
      by (simp add: handleLogin_def Let_def studentBlock_noMatch blocks_other_api b
          cong: option.case_cong)
  qed
  have p5: "alerts (handleLogin a c s) = alerts s @ [''Invalid credentials'']
      \<and> isLoggedIn (handleLogin a c s) = isLoggedIn s
      \<and> currentUser (handleLogin a c s) = currentUser s
      \<and> currentView (handleLogin a c s) = currentView s
      \<and> domainState (handleLogin a c s) = domainState s
      \<and> apiCalls (handleLogin a c s)
          = apiCalls s @ [''officersApi.login'', ''coordinatorsApi.login'',
                          ''studentsApi.login'']"
    if "\<not> officerMatches a c s" "\<not> coordinatorMatches a c" "\<not> studentMatches a c"
    by (simp add: handleLogin_no_match [OF that]) (simp add: alert_def call_def domainState_def)
  from p1 p2 p3 p4 p5 show ?thesis by blast
qed

text \<open>
  The claim as first stated fails for the officer path: with the officer source
  unreachable and the first fallback credential entered, the session becomes an officer
  session after the single officer call, whereas a source that answers ``no match''
  leaves the application logged out.
\<close>

theorem officer_fallback_counterexample:
  "unreachable (officersApi_login example_api_unreachable
       (cred_id example_fallback_credentials) (cred_password example_fallback_credentials))
   \<and> session (handleLogin example_api_unreachable example_fallback_credentials initial_app)
       = Some Officer
   \<and> apiCalls (handleLogin example_api_unreachable example_fallback_credentials initial_app)
       = [''officersApi.login'']
   \<and> session (handleLogin example_api_denies example_fallback_credentials initial_app) = None
   \<and> handleLogin example_api_unreachable example_fallback_credentials initial_app
       \<noteq> handleLogin example_api_denies example_fallback_credentials initial_app"
proof -
  have u: "unreachable (officersApi_login example_api_unreachable
       (cred_id example_fallback_credentials) (cred_password example_fallback_credentials))"
    by (simp add: unreachable_def example_api_unreachable_def)
  have l: "handleLogin example_api_unreachable example_fallback_credentials initial_app
     = initial_app\<lparr>apiCalls := [''officersApi.login''],
         currentUser := Some \<lparr>u_type = Officer,
           u_data = OfficerFallback ''OFFICER001'' ''Program Officer'' ''super admin''\<rparr>,
         isLoggedIn := True, currentView := VOfficer\<rparr>"
    by (simp add: handleLogin_def officerBlock_def example_api_unreachable_def
        example_fallback_credentials_def call_def initial_app_def
        initial_officerCredentials_def)
  have d: "handleLogin example_api_denies example_fallback_credentials initial_app
     = initial_app\<lparr>apiCalls := [''officersApi.login'', ''coordinatorsApi.login'',
                                  ''studentsApi.login''],
         alerts := [''Invalid credentials'']\<rparr>"
    by (simp add: handleLogin_def officerBlock_def coordinatorBlock_def studentBlock_def
        example_api_denies_def noMatch_def call_def alert_def initial_app_def)
  have s1: "session (handleLogin example_api_unreachable example_fallback_credentials initial_app)
       = Some Officer"
    by (simp add: l session_def)
  have s2: "session (handleLogin example_api_denies example_fallback_credentials initial_app) = None"
    unfolding d by (simp add: session_def initial_app_def)
  have c: "apiCalls (handleLogin example_api_unreachable example_fallback_credentials initial_app)
       = [''officersApi.login'']"
    by (simp add: l)
  from s1 s2 have "handleLogin example_api_unreachable example_fallback_credentials initial_app
       \<noteq> handleLogin example_api_denies example_fallback_credentials initial_app"
    by auto
  with u s1 s2 c show ?thesis by simp
qed

section \<open>Initial load\<close>

lemma every_fetch: "f \<in> set [FetchPrograms, FetchStudents, FetchCoordinators, FetchDepartments]"
  by (cases f) simp_all

lemma promise_all_rejected:
  assumes "rejection r f \<noteq> None"
  shows "\<exists>e. promise_all order r = Inl e"
proof -
  let ?xs = "order @ [FetchPrograms, FetchStudents, FetchCoordinators, FetchDepartments]"
  from every_fetch [of f] have "f \<in> set ?xs" by auto
  with assms have "find (\<lambda>f. rejection r f \<noteq> None) ?xs \<noteq> None"
    by (auto simp add: find_None_iff simp del: set_append set_simps)
  then obtain g where g: "find (\<lambda>f. rejection r f \<noteq> None) ?xs = Some g" by blast
  show ?thesis
    unfolding promise_all_def g by (cases "rejection r g") simp_all
qed

lemma promise_all_fulfilled:
  assumes "programsData r = Inr p" "studentsData r = Inr st"
    "coordinatorsData r = Inr c" "departmentsData r = Inr d"
  shows "promise_all order r = Inr (p, st, c, d)"
proof -
  have "rejection r f = None" for f
    using assms by (cases f) (simp_all add: rejection_def)
  then have "find (\<lambda>f. rejection r f \<noteq> None)
               (order @ [FetchPrograms, FetchStudents, FetchCoordinators, FetchDepartments])
             = None"
    by (simp add: find_None_iff)
  with assms show ?thesis by (simp add: promise_all_def)
qed

lemma loadFailed_screen:
  "domainState (loadFailed e s) = domainState s
   \<and> \<not> isLoading (loadFailed e s)
   \<and> (\<exists>m. loadingError (loadFailed e s) = Some m
          \<and> (m \<noteq> [] \<longrightarrow> App_render (loadFailed e s) = ConnectionErrorScreen m))"
  by (simp add: loadFailed_def domainState_def App_render_def)

lemma domainState_call [simp]: "domainState (call m s) = domainState s"
  by (simp add: domainState_def call_def)

lemma domainState_loading [simp]:
  "domainState (s\<lparr>isLoading := b, loadingError := e\<rparr>) = domainState s"
  by (simp add: domainState_def)

text \<open>
  A failed initial load: when the health check or any of the four requests throws,
  nothing is stored, loading ends and an error message is set; the connection-error
  screen is shown provided that message is not the empty string.
\<close>

lemma initial_load_failure:
  assumes "unreachable (healthCheck r) \<or> rejection r f \<noteq> None"
  shows "domainState (loadInitialData order r s) = domainState s
   \<and> \<not> isLoading (loadInitialData order r s)
   \<and> (\<exists>m. loadingError (loadInitialData order r s) = Some m
          \<and> (m \<noteq> [] \<longrightarrow>
                App_render (loadInitialData order r s) = ConnectionErrorScreen m))"
proof (cases "healthCheck r")
  case (Inl e)
  then have "loadInitialData order r s =
      loadFailed e (call ''healthApi.check'' (s\<lparr>isLoading := True, loadingError := None\<rparr>))"
    by (simp add: loadInitialData_def Let_def)
  with loadFailed_screen [of e "call ''healthApi.check'' (s\<lparr>isLoading := True, loadingError := None\<rparr>)"]
  show ?thesis by simp
next
  case (Inr u)
  with assms have "rejection r f \<noteq> None" by (simp add: unreachable_def)
  from promise_all_rejected [OF this] obtain e where "promise_all order r = Inl e" ..
  with Inr have "loadInitialData order r s =
      loadFailed e (call ''departmentsApi.getAll''
                         (call ''coordinatorsApi.getAll''
                           (call ''studentsApi.getAll'' (call ''programsApi.getAll''
        (call ''healthApi.check'' (s\<lparr>isLoading := True, loadingError := None\<rparr>))))))"
    by (simp add: loadInitialData_def Let_def)
  with loadFailed_screen [of e "(call ''departmentsApi.getAll''
                         (call ''coordinatorsApi.getAll''
                           (call ''studentsApi.getAll'' (call ''programsApi.getAll''
        (call ''healthApi.check'' (s\<lparr>isLoading := True, loadingError := None\<rparr>))))))"]
  show ?thesis by simp
qed

text \<open>
  The four requests are all issued before any of them is awaited: they are in the call
  log whenever the health check succeeded, whether or not one of them fails.
\<close>

lemma initial_load_fan_out:
  assumes "healthCheck r = Inr u"
  shows "\<exists>rest. apiCalls (loadInitialData order r s) =
           apiCalls s @ [''healthApi.check'', ''programsApi.getAll'', ''studentsApi.getAll'',
                         ''coordinatorsApi.getAll'', ''departmentsApi.getAll''] @ rest"
proof (cases "promise_all order r")
  case (Inl e)
  with assms have "apiCalls (loadInitialData order r s) =
           apiCalls s @ [''healthApi.check'', ''programsApi.getAll'', ''studentsApi.getAll'',
                         ''coordinatorsApi.getAll'', ''departmentsApi.getAll''] @ []"
    by (simp add: loadInitialData_def Let_def loadFailed_def call_def)
  then show ?thesis by blast
next
  case (Inr v)
  obtain p st c d where "v = (p, st, c, d)" by (cases v) auto
  with Inr assms have "apiCalls (loadInitialData order r s) =
           apiCalls s @ [''healthApi.check'', ''programsApi.getAll'', ''studentsApi.getAll'',
                         ''coordinatorsApi.getAll'', ''departmentsApi.getAll'']
             @ [''studentReportsApi.getAll'']"
    by (simp add: loadInitialData_def Let_def call_def)
  then show ?thesis by blast
qed

lemma initial_load_success:
  assumes "healthCheck r = Inr u" "programsData r = Inr p" "studentsData r = Inr st"
    "coordinatorsData r = Inr c" "departmentsData r = Inr d"
  shows "programs (loadInitialData order r s) = p
    \<and> registeredStudents (loadInitialData order r s) = st
    \<and> coordinators (loadInitialData order r s) = c
    \<and> departments (loadInitialData order r s) = d
    \<and> loadingError (loadInitialData order r s) = None
    \<and> \<not> isLoading (loadInitialData order r s)"
  using assms(1) promise_all_fulfilled [OF assms(2-5), of order]
  by (simp add: loadInitialData_def Let_def call_def)

text \<open>
  Claim C6 (initial load), at the input where it fails. The programs request throws an
  \<^verbatim>\<open>Error\<close> whose message is the empty string and the other three requests succeed.
  The load fails and stores nothing, but \<^verbatim>\<open>loadingError\<close> is then the empty string,
  which \<^verbatim>\<open>if (loadingError)\<close> takes for no error: the home page is rendered, with no
  data, instead of the connection-error screen.
\<close>

theorem initial_load_empty_message_home_page:
  "rejection example_load_programs_fail FetchPrograms = Some (JsError [])
   \<and> loadingError (loadInitialData [] example_load_programs_fail initial_app) = Some []
   \<and> App_render (loadInitialData [] example_load_programs_fail initial_app)
       = MainScreen HomePage
   \<and> programs (loadInitialData [] example_load_programs_fail initial_app) = []
   \<and> registeredStudents (loadInitialData [] example_load_programs_fail initial_app) = []"
proof -
  have r: "rejection example_load_programs_fail FetchPrograms = Some (JsError [])"
    by (simp add: rejection_def example_load_programs_fail_def)
  have p: "promise_all [] example_load_programs_fail = Inl (JsError [])"
    by (simp add: promise_all_def rejection_def example_load_programs_fail_def)
  have h: "healthCheck example_load_programs_fail = Inr ()"
    by (simp add: example_load_programs_fail_def)
  have l: "loadInitialData [] example_load_programs_fail initial_app =
      initial_app\<lparr>apiCalls := [''healthApi.check'', ''programsApi.getAll'',
                     ''studentsApi.getAll'', ''coordinatorsApi.getAll'',
                     ''departmentsApi.getAll''],
                  loadingError := Some [], isLoading := False\<rparr>"
    by (simp add: loadInitialData_def Let_def p h loadFailed_def call_def)
       (simp add: initial_app_def)
  show ?thesis
    unfolding l using r
    by (simp add: App_render_def renderCurrentView_def initial_app_def)
qed

section \<open>Student deletion and department rename\<close>

lemma handleDeleteStudent_success:
  "registeredStudents (handleDeleteStudent X (Inr u) rr s)
     = filter (\<lambda>st. stu_id st \<noteq> X) (registeredStudents s)"
  "programs (handleDeleteStudent X (Inr u) rr s)
     = map (\<lambda>program.
              program\<lparr>prog_participantIds :=
                Some (case prog_participantIds program of
                        None \<Rightarrow> []
                      | Some ids \<Rightarrow> filter (\<lambda>participantId. participantId \<noteq> X) ids)\<rparr>)
           (programs s)"
  "studentReports (handleDeleteStudent X (Inr u) rr s) = (studentReports s)(X := None)"
  "coordinators (handleDeleteStudent X (Inr u) rr s) = coordinators s"
  "departments (handleDeleteStudent X (Inr u) rr s) = departments s"
  "alerts (handleDeleteStudent X (Inr u) rr s) = alerts s"
  by (cases rr; simp add: handleDeleteStudent_def Let_def call_def)+

lemma filter_case_option:
  "(case x of None \<Rightarrow> [] | Some ids \<Rightarrow> filter P ids)
     = filter P (case x of None \<Rightarrow> [] | Some ids \<Rightarrow> ids)"
  by (cases x) simp_all

lemma ball_map: "(\<And>x. Q (u x)) \<Longrightarrow> \<forall>p \<in> set (map u ps). Q p"
  by simp

lemma removed_from_program:
  "\<forall>ids. prog_participantIds
           (program\<lparr>prog_participantIds :=
              Some (filter (\<lambda>participantId. participantId \<noteq> X) old)\<rparr>) = Some ids
         \<longrightarrow> X \<notin> set ids"
  by simp

text \<open>
  Claim C9 (cascade on student deletion). After the server has deleted student X
  (whether or not the deletion of the report on the server then succeeds): the
  registered students are those that were there, in order, without the ones with id X;
  every program is the program it was with X filtered out of its participant list (an
  undefined list becoming the empty one), all its other fields as they were; the report
  keyed by X is gone and every other report entry is as it was; coordinators,
  departments and alerts are unchanged.
\<close>

theorem student_delete_cascade:
  assumes "s' = handleDeleteStudent X (Inr u) reportResponse s"
  shows "registeredStudents s' = filter (\<lambda>st. stu_id st \<noteq> X) (registeredStudents s)
   \<and> X \<notin> stu_id ` set (registeredStudents s')
   \<and> length (programs s') = length (programs s)
   \<and> (\<forall>i < length (programs s).
         programs s' ! i
           = (programs s ! i)\<lparr>prog_participantIds :=
                Some (filter (\<lambda>participantId. participantId \<noteq> X)
                        (case prog_participantIds (programs s ! i) of
                           None \<Rightarrow> [] | Some ids \<Rightarrow> ids))\<rparr>)
   \<and> (\<forall>p \<in> set (programs s'). \<forall>ids. prog_participantIds p = Some ids \<longrightarrow> X \<notin> set ids)
   \<and> studentReports s' X = None
   \<and> (\<forall>k. k \<noteq> X \<longrightarrow> studentReports s' k = studentReports s k)
   \<and> coordinators s' = coordinators s \<and> departments s' = departments s
   \<and> alerts s' = alerts s"
proof -
  note e = handleDeleteStudent_success [of X u reportResponse s, folded assms]
  have st: "registeredStudents s' = filter (\<lambda>st. stu_id st \<noteq> X) (registeredStudents s)"
    by (rule e(1))
  then have st2: "X \<notin> stu_id ` set (registeredStudents s')"
    by auto
  have pr: "programs s' =
      map (\<lambda>program.
              program\<lparr>prog_participantIds :=
                Some (filter (\<lambda>participantId. participantId \<noteq> X)
                        (case prog_participantIds program of
                           None \<Rightarrow> [] | Some ids \<Rightarrow> ids))\<rparr>)
          (programs s)"
    unfolding e(2) filter_case_option ..
  then have len: "length (programs s') = length (programs s)"
    by (simp only: length_map)
  have nth: "\<forall>i < length (programs s).
         programs s' ! i
           = (programs s ! i)\<lparr>prog_participantIds :=
                Some (filter (\<lambda>participantId. participantId \<noteq> X)
                        (case prog_participantIds (programs s ! i) of
                           None \<Rightarrow> [] | Some ids \<Rightarrow> ids))\<rparr>"
    unfolding pr by simp
  have gone: "\<forall>p \<in> set (programs s'). \<forall>ids. prog_participantIds p = Some ids \<longrightarrow> X \<notin> set ids"
    unfolding pr by (rule ball_map) (rule removed_from_program)
  have rep: "studentReports s' X = None"
    "\<forall>k. k \<noteq> X \<longrightarrow> studentReports s' k = studentReports s k"
    by (simp_all add: e(3))
  from st st2 len nth gone rep e(4,5,6) show ?thesis by blast
qed

lemma handleEditDepartment_success:
  assumes "find (\<lambda>d. dept_id d = D) (departments s) = Some old"
  shows "registeredStudents (handleEditDepartment D M (Inr upd) s)
     = map (\<lambda>st. if stu_department st = dept_name old
                  then st\<lparr>stu_department := M\<rparr> else st)
           (registeredStudents s)"
  using assms by (simp add: handleEditDepartment_def Let_def call_def)

lemma handleEditDepartment_absent:
  assumes "find (\<lambda>d. dept_id d = D) (departments s) = None"
  shows "handleEditDepartment D M r s = s"
  using assms by (simp add: handleEditDepartment_def)

lemma nth_map_if:
  assumes "i < length xs"
  shows "(c (xs ! i) \<longrightarrow> map (\<lambda>x. if c x then u x else x) xs ! i = u (xs ! i))
       \<and> (\<not> c (xs ! i) \<longrightarrow> map (\<lambda>x. if c x then u x else x) xs ! i = xs ! i)"
  using assms by simp

text \<open>
  Claim C10 (department rename propagation). If no department with id D is held
  locally, \<^verbatim>\<open>handleEditDepartment\<close> changes nothing, whatever the server would answer.
  Otherwise, with N the name of the department found, after a successful edit to the new
  name M the list of students has the same length and, position by position, a student
  whose department is N is that student with department M, and a student whose
  department is not N is unchanged.
\<close>

theorem department_rename_propagates:
  "(find (\<lambda>d. dept_id d = D) (departments s) = None \<longrightarrow>
      handleEditDepartment D M response s = s)
   \<and> (\<forall>old upd. find (\<lambda>d. dept_id d = D) (departments s) = Some old \<longrightarrow>
        length (registeredStudents (handleEditDepartment D M (Inr upd) s))
          = length (registeredStudents s)
        \<and> (\<forall>i < length (registeredStudents s).
             (stu_department (registeredStudents s ! i) = dept_name old \<longrightarrow>
                registeredStudents (handleEditDepartment D M (Inr upd) s) ! i
                  = (registeredStudents s ! i)\<lparr>stu_department := M\<rparr>)
             \<and> (stu_department (registeredStudents s ! i) \<noteq> dept_name old \<longrightarrow>
                registeredStudents (handleEditDepartment D M (Inr upd) s) ! i
                  = registeredStudents s ! i)))"
proof -
  have a: "handleEditDepartment D M response s = s"
    if "find (\<lambda>d. dept_id d = D) (departments s) = None"
    using that by (rule handleEditDepartment_absent)
  have b: "length (registeredStudents (handleEditDepartment D M (Inr upd) s))
          = length (registeredStudents s)
        \<and> (\<forall>i < length (registeredStudents s).
             (stu_department (registeredStudents s ! i) = dept_name old \<longrightarrow>
                registeredStudents (handleEditDepartment D M (Inr upd) s) ! i
                  = (registeredStudents s ! i)\<lparr>stu_department := M\<rparr>)
             \<and> (stu_department (registeredStudents s ! i) \<noteq> dept_name old \<longrightarrow>
                registeredStudents (handleEditDepartment D M (Inr upd) s) ! i
                  = registeredStudents s ! i))"
    if f: "find (\<lambda>d. dept_id d = D) (departments s) = Some old" for old upd
  proof -
    note e = handleEditDepartment_success [OF f, of M upd]
    have "length (registeredStudents (handleEditDepartment D M (Inr upd) s))
          = length (registeredStudents s)"
      unfolding e by (simp only: length_map)
    moreover have "\<forall>i < length (registeredStudents s).
             (stu_department (registeredStudents s ! i) = dept_name old \<longrightarrow>
                registeredStudents (handleEditDepartment D M (Inr upd) s) ! i
                  = (registeredStudents s ! i)\<lparr>stu_department := M\<rparr>)
             \<and> (stu_department (registeredStudents s ! i) \<noteq> dept_name old \<longrightarrow>
                registeredStudents (handleEditDepartment D M (Inr upd) s) ! i
                  = registeredStudents s ! i)"
      unfolding e
      using nth_map_if [where c = "\<lambda>st. stu_department st = dept_name old"
          and u = "\<lambda>st. st\<lparr>stu_department := M\<rparr>" and xs = "registeredStudents s"]
      by blast
    ultimately show ?thesis by blast
  qed
  from a b show ?thesis by blast
qed

section \<open>Instances\<close>

theorem login_precedence_witness:
  "officerMatches example_api_officer_and_coordinator example_credentials initial_app
   \<and> coordinatorMatches example_api_officer_and_coordinator example_credentials
   \<and> session (handleLogin example_api_officer_and_coordinator example_credentials initial_app)
       = Some Officer
   \<and> \<not> officerMatches example_api_coordinator example_credentials initial_app
   \<and> coordinatorMatches example_api_coordinator example_credentials
   \<and> session (handleLogin example_api_coordinator example_credentials initial_app)
       = Some Coordinator
   \<and> \<not> officerMatches example_api_student example_credentials initial_app
   \<and> \<not> coordinatorMatches example_api_student example_credentials
   \<and> studentMatches example_api_student example_credentials
   \<and> session (handleLogin example_api_student example_credentials initial_app) = Some Student"
proof -
  have a: "officerMatches example_api_officer_and_coordinator example_credentials initial_app"
    "coordinatorMatches example_api_officer_and_coordinator example_credentials"
    by (simp_all add: officerMatches_def coordinatorMatches_def positive_def
        example_api_officer_and_coordinator_def)
  have b: "\<not> officerMatches example_api_coordinator example_credentials initial_app"
    "coordinatorMatches example_api_coordinator example_credentials"
    by (simp_all add: officerMatches_def coordinatorMatches_def positive_def unreachable_def
        noMatch_def example_api_coordinator_def)
  have c: "\<not> officerMatches example_api_student example_credentials initial_app"
    "\<not> coordinatorMatches example_api_student example_credentials"
    "studentMatches example_api_student example_credentials"
    by (simp_all add: officerMatches_def coordinatorMatches_def studentMatches_def
        positive_def unreachable_def noMatch_def example_api_student_def)
  from a b c
    login_precedence [of example_api_officer_and_coordinator example_credentials initial_app]
    login_precedence [of example_api_coordinator example_credentials initial_app]
    login_precedence [of example_api_student example_credentials initial_app]
  show ?thesis by simp
qed

theorem view_routing_witness:
  "currentView example_coordinator_at_officer_view = VOfficer
   \<and> session example_coordinator_at_officer_view = Some Coordinator
   \<and> renderCurrentView example_coordinator_at_officer_view = LoginPage"
proof -
  have "currentView example_coordinator_at_officer_view = VOfficer"
    "session example_coordinator_at_officer_view = Some Coordinator"
    by (simp_all add: example_coordinator_at_officer_view_def session_def)
  with view_routing [of example_coordinator_at_officer_view] show ?thesis by blast
qed

lemma example_logged_in_eq:
  "example_logged_in =
     initial_app\<lparr>apiCalls := [''officersApi.login''],
         currentUser := Some \<lparr>u_type = Officer,
           u_data = OfficerFallback ''OFFICER001'' ''Program Officer'' ''super admin''\<rparr>,
         isLoggedIn := True, currentView := VOfficer,
         logoutTimerRef := Some 1, timers := [(1, 1800000)], lastHandle := 1,
         listening := True\<rparr>"
proof -
  have l: "handleLogin example_api_unreachable example_fallback_credentials initial_app
     = initial_app\<lparr>apiCalls := [''officersApi.login''],
         currentUser := Some \<lparr>u_type = Officer,
           u_data = OfficerFallback ''OFFICER001'' ''Program Officer'' ''super admin''\<rparr>,
         isLoggedIn := True, currentView := VOfficer\<rparr>"
    by (simp add: handleLogin_def officerBlock_def example_api_unreachable_def
        example_fallback_credentials_def call_def initial_app_def
        initial_officerCredentials_def)
  show ?thesis
    unfolding example_logged_in_def step.simps l
    by (simp add: commit_def activityEffect_def resetLogoutTimer_def setTimeout_def
        INACTIVITY_TIMEOUT_def initial_app_def)
qed

lemma example_logged_in_inv: "session_inv example_logged_in"
  unfolding example_logged_in_def by (rule step_inv [OF initial_inv])

theorem idle_timer_rearmed_witness:
  "session_inv example_logged_in \<and> isLoggedIn example_logged_in
   \<and> remaining (activity [(1799999, Mousemove)] example_logged_in) = Some 1800000"
proof -
  have l: "isLoggedIn example_logged_in" by (simp add: example_logged_in_eq)
  from idle_timer_rearmed [OF example_logged_in_inv l, of "[(1799999, Mousemove)]"]
    example_logged_in_inv l
  show ?thesis by (simp add: events_def)
qed

theorem logout_cancels_timer_witness:
  "session_inv example_logged_in
   \<and> \<not> isLoggedIn (run [ATick 60000, ALogout] example_logged_in)
   \<and> timers (run [ATick 60000, ALogout] example_logged_in) = []
   \<and> timerExpires 1 (run [ATick 60000, ALogout] example_logged_in)
       = run [ATick 60000, ALogout] example_logged_in"
proof -
  have "session_inv (advance 60000 example_logged_in)"
    by (rule step_tick_inv [OF example_logged_in_inv])
  then have "single_timer (advance 60000 example_logged_in)"
    by (simp add: session_inv_def)
  then have "\<not> isLoggedIn (run [ATick 60000, ALogout] example_logged_in)"
    by (simp add: commit_handleLogout)
  with logout_cancels_timer [OF example_logged_in_inv] example_logged_in_inv
  show ?thesis by blast
qed

theorem timeout_is_logout_with_one_alert_witness:
  "session_inv (advance 1800000 example_logged_in)
   \<and> isLoggedIn (advance 1800000 example_logged_in)
   \<and> map_of (timers (advance 1800000 example_logged_in)) 1 = Some 1800000
   \<and> 1800000 \<le> now (advance 1800000 example_logged_in)
   \<and> \<not> isLoggedIn (timerExpires 1 (advance 1800000 example_logged_in))
   \<and> alerts (timerExpires 1 (advance 1800000 example_logged_in))
       = [''You have been automatically logged out due to inactivity (30 minutes).'']"
proof -
  have i: "session_inv (advance 1800000 example_logged_in)"
    by (rule step_tick_inv [OF example_logged_in_inv])
  have l: "isLoggedIn (advance 1800000 example_logged_in)"
    and m: "map_of (timers (advance 1800000 example_logged_in)) 1 = Some 1800000"
    and d: "1800000 \<le> now (advance 1800000 example_logged_in)"
    and a: "alerts (advance 1800000 example_logged_in) = []"
    by (simp_all add: example_logged_in_eq advance_def initial_app_def)
  note t = timeout_is_logout_with_one_alert [OF i l m d]
  from t have n: "\<not> isLoggedIn (timerExpires 1 (advance 1800000 example_logged_in))"
    by blast
  from t have "timerExpires 1 (advance 1800000 example_logged_in) =
      (step ALogout (advance 1800000 example_logged_in))
        \<lparr>alerts := alerts (advance 1800000 example_logged_in) @
           [''You have been automatically logged out due to inactivity (30 minutes).'']\<rparr>"
    by blast
  then have "alerts (timerExpires 1 (advance 1800000 example_logged_in))
       = alerts (advance 1800000 example_logged_in) @
           [''You have been automatically logged out due to inactivity (30 minutes).'']"
    by simp
  with a have "alerts (timerExpires 1 (advance 1800000 example_logged_in))
       = [''You have been automatically logged out due to inactivity (30 minutes).'']"
    by simp
  with i l m d n show ?thesis by blast
qed

lemma example_domain_fields:
  "programs example_domain = [example_program]"
  "registeredStudents example_domain = [example_student, example_student2]"
  "coordinators example_domain = [example_coordinator]"
  "departments example_domain = [example_department]"
  "alerts example_domain = []"
  by (simp_all add: example_domain_def initial_app_def)

theorem login_failure_handling_witness:
  "unreachable (officersApi_login example_api_unreachable
       (cred_id example_credentials) (cred_password example_credentials))
   \<and> \<not> fallbackMatches example_credentials (officerCredentials initial_app)
   \<and> unreachable (coordinatorsApi_login example_api_unreachable
       (cred_id example_credentials) (cred_password example_credentials))
   \<and> unreachable (studentsApi_login example_api_unreachable
       (cred_id example_credentials) (cred_password example_credentials))
   \<and> \<not> officerMatches example_api_unreachable example_credentials initial_app
   \<and> \<not> coordinatorMatches example_api_unreachable example_credentials
   \<and> \<not> studentMatches example_api_unreachable example_credentials
   \<and> alerts (handleLogin example_api_unreachable example_credentials initial_app)
       = alerts initial_app @ [''Invalid credentials'']
   \<and> isLoggedIn (handleLogin example_api_unreachable example_credentials initial_app)
       = isLoggedIn initial_app
   \<and> apiCalls (handleLogin example_api_unreachable example_credentials initial_app)
       = apiCalls initial_app @ [''officersApi.login'', ''coordinatorsApi.login'',
                                 ''studentsApi.login'']
   \<and> fallbackMatches example_fallback_credentials (officerCredentials initial_app)
   \<and> session (handleLogin example_api_unreachable example_fallback_credentials initial_app)
       = Some Officer"
proof -
  have u: "unreachable (officersApi_login example_api_unreachable
       (cred_id example_credentials) (cred_password example_credentials))"
    "unreachable (coordinatorsApi_login example_api_unreachable
       (cred_id example_credentials) (cred_password example_credentials))"
    "unreachable (studentsApi_login example_api_unreachable
       (cred_id example_credentials) (cred_password example_credentials))"
    "unreachable (officersApi_login example_api_unreachable
       (cred_id example_fallback_credentials) (cred_password example_fallback_credentials))"
    by (simp_all add: unreachable_def example_api_unreachable_def)
  have f: "\<not> fallbackMatches example_credentials (officerCredentials initial_app)"
    "fallbackMatches example_fallback_credentials (officerCredentials initial_app)"
    by (simp_all add: fallbackMatches_def example_credentials_def
        example_fallback_credentials_def initial_app_def initial_officerCredentials_def)
  from u f have n: "\<not> officerMatches example_api_unreachable example_credentials initial_app"
    "\<not> coordinatorMatches example_api_unreachable example_credentials"
    "\<not> studentMatches example_api_unreachable example_credentials"
    by (simp_all add: officerMatches_def coordinatorMatches_def studentMatches_def
        unreachable_not_positive)
  from u f n
    login_failure_handling [of example_api_unreachable example_credentials initial_app]
    login_failure_handling [of example_api_unreachable example_fallback_credentials initial_app]
  show ?thesis by blast
qed

theorem crud_failure_atomic_witness:
  "find (\<lambda>c. coord_id c = ''C1'') (coordinators example_domain) \<noteq> None
   \<and> alerts (handleToggleCoordinatorAccess ''C1'' (Inl NonError) example_domain)
       = alerts example_domain @ [''Failed to update coordinator access. Please try again.'']
   \<and> find (\<lambda>d. dept_id d = ''D1'') (departments example_domain) \<noteq> None
   \<and> alerts (handleEditDepartment ''D1'' ''Optics'' (Inl NonError) example_domain)
       = alerts example_domain @ [''Failed to edit department. Please try again.'']
   \<and> alerts (handleToggleDepartment ''D1'' (Inl NonError) example_domain)
       = alerts example_domain @ [''Failed to update department status. Please try again.'']
   \<and> domainState (handleDeleteProgram ''P1'' (Inl NonError) example_domain)
       = domainState example_domain
   \<and> example_program\<lparr>prog_participantIds := Some [''S2''], prog_updatedAt := Some ''now''\<rparr>
       \<in> set (programs (handleAddParticipants ''now'' ''P1'' [''S2''] example_domain))
   \<and> prog_participantIds
        (example_program\<lparr>prog_participantIds := Some [''S2''], prog_updatedAt := Some ''now''\<rparr>)
       = Some [''S2'']"
proof -
  have c: "find (\<lambda>c. coord_id c = ''C1'') (coordinators example_domain) \<noteq> None"
    by (simp add: example_domain_fields example_coordinator_def)
  have d: "find (\<lambda>d. dept_id d = ''D1'') (departments example_domain) \<noteq> None"
    by (simp add: example_domain_fields example_department_def)
  have p: "example_program\<lparr>prog_participantIds := Some [''S2''], prog_updatedAt := Some ''now''\<rparr>
       \<in> set (programs (handleAddParticipants ''now'' ''P1'' [''S2''] example_domain))"
    by (simp add: handleAddParticipants_def example_domain_fields)
       (simp add: example_program_def)
  have i: "prog_id (example_program\<lparr>prog_participantIds := Some [''S2''],
                                     prog_updatedAt := Some ''now''\<rparr>) = ''P1''"
    by (simp add: example_program_def)
  note t1 = crud_failure_atomic [where i = "''C1''" and e = NonError and s = example_domain]
  note t2 = crud_failure_atomic [where i = "''D1''" and n = "''Optics''" and e = NonError
      and s = example_domain]
  note t3 = crud_failure_atomic [where i = "''P1''" and e = NonError and s = example_domain
      and t = "''now''" and ids = "[''S2'']"]
  from t1 c have a1: "alerts (handleToggleCoordinatorAccess ''C1'' (Inl NonError) example_domain)
       = alerts example_domain @ [''Failed to update coordinator access. Please try again.'']"
    by blast
  from t2 d have a2: "alerts (handleEditDepartment ''D1'' ''Optics'' (Inl NonError) example_domain)
       = alerts example_domain @ [''Failed to edit department. Please try again.'']"
    "alerts (handleToggleDepartment ''D1'' (Inl NonError) example_domain)
       = alerts example_domain @ [''Failed to update department status. Please try again.'']"
    by blast+
  from t3 have a3: "domainState (handleDeleteProgram ''P1'' (Inl NonError) example_domain)
       = domainState example_domain"
    by blast
  from t3 have "\<forall>p \<in> set (programs (handleAddParticipants ''now'' ''P1'' [''S2''] example_domain)).
          prog_id p = ''P1'' \<longrightarrow> prog_participantIds p = Some [''S2'']"
    by blast
  with p i have a4: "prog_participantIds
        (example_program\<lparr>prog_participantIds := Some [''S2''], prog_updatedAt := Some ''now''\<rparr>)
       = Some [''S2'']"
    by blast
  from c d p a1 a2 a3 a4 show ?thesis by blast
qed

theorem student_delete_cascade_witness:
  "registeredStudents (handleDeleteStudent ''S1'' (Inr ()) (Inl NonError) example_domain)
     = [example_student2]
   \<and> 0 < length (programs example_domain)
   \<and> programs (handleDeleteStudent ''S1'' (Inr ()) (Inl NonError) example_domain) ! 0
       = example_program\<lparr>prog_participantIds := Some [''S2'']\<rparr>
   \<and> studentReports (handleDeleteStudent ''S1'' (Inr ()) (Inl NonError) example_domain) ''S1''
       = None"
proof -
  note t = student_delete_cascade [OF refl, of "''S1''" "()" "Inl NonError" example_domain]
  from t have "registeredStudents (handleDeleteStudent ''S1'' (Inr ()) (Inl NonError) example_domain)
     = filter (\<lambda>st. stu_id st \<noteq> ''S1'') (registeredStudents example_domain)"
    by blast
  then have a: "registeredStudents (handleDeleteStudent ''S1'' (Inr ()) (Inl NonError) example_domain)
     = [example_student2]"
    by (simp add: example_domain_fields example_student_def example_student2_def)
  have l: "0 < length (programs example_domain)"
    by (simp add: example_domain_fields)
  with t have "programs (handleDeleteStudent ''S1'' (Inr ()) (Inl NonError) example_domain) ! 0
       = (programs example_domain ! 0)\<lparr>prog_participantIds :=
                Some (filter (\<lambda>participantId. participantId \<noteq> ''S1'')
                        (case prog_participantIds (programs example_domain ! 0) of
                           None \<Rightarrow> [] | Some ids \<Rightarrow> ids))\<rparr>"
    by blast
  then have b: "programs (handleDeleteStudent ''S1'' (Inr ()) (Inl NonError) example_domain) ! 0
       = example_program\<lparr>prog_participantIds := Some [''S2'']\<rparr>"
    by (simp add: example_domain_fields) (simp add: example_program_def)
  from t have c: "studentReports (handleDeleteStudent ''S1'' (Inr ()) (Inl NonError) example_domain) ''S1''
       = None"
    by blast
  from a l b c show ?thesis by blast
qed

theorem department_rename_propagates_witness:
  "find (\<lambda>d. dept_id d = ''D1'') (departments example_domain) = Some example_department
   \<and> 0 < length (registeredStudents example_domain)
   \<and> 1 < length (registeredStudents example_domain)
   \<and> stu_department (registeredStudents example_domain ! 0) = dept_name example_department
   \<and> stu_department (registeredStudents example_domain ! 1) \<noteq> dept_name example_department
   \<and> registeredStudents
        (handleEditDepartment ''D1'' ''Optics''
           (Inr (example_department\<lparr>dept_name := ''Optics''\<rparr>)) example_domain) ! 0
       = example_student\<lparr>stu_department := ''Optics''\<rparr>
   \<and> registeredStudents
        (handleEditDepartment ''D1'' ''Optics''
           (Inr (example_department\<lparr>dept_name := ''Optics''\<rparr>)) example_domain) ! 1
       = example_student2
   \<and> find (\<lambda>d. dept_id d = ''D9'') (departments example_domain) = None
   \<and> handleEditDepartment ''D9'' ''Optics'' (Inl NonError) example_domain = example_domain"
proof -
  have f: "find (\<lambda>d. dept_id d = ''D1'') (departments example_domain) = Some example_department"
    by (simp add: example_domain_fields) (simp add: example_department_def)
  have g: "find (\<lambda>d. dept_id d = ''D9'') (departments example_domain) = None"
    by (simp add: example_domain_fields) (simp add: example_department_def)
  have l: "0 < length (registeredStudents example_domain)"
    "1 < length (registeredStudents example_domain)"
    by (simp_all add: example_domain_fields)
  have d: "stu_department (registeredStudents example_domain ! 0) = dept_name example_department"
    "stu_department (registeredStudents example_domain ! 1) \<noteq> dept_name example_department"
    by (simp_all add: example_domain_fields example_student_def example_student2_def
        example_department_def)
  have n: "registeredStudents example_domain ! 0 = example_student"
    "registeredStudents example_domain ! 1 = example_student2"
    by (simp_all add: example_domain_fields)
  note t1 = department_rename_propagates [of "''D1''" example_domain "''Optics''" "Inl NonError"]
  note t2 = department_rename_propagates [of "''D9''" example_domain "''Optics''" "Inl NonError"]
  from t1 f l d have "registeredStudents
        (handleEditDepartment ''D1'' ''Optics''
           (Inr (example_department\<lparr>dept_name := ''Optics''\<rparr>)) example_domain) ! 0
       = (registeredStudents example_domain ! 0)\<lparr>stu_department := ''Optics''\<rparr>"
    "registeredStudents
        (handleEditDepartment ''D1'' ''Optics''
           (Inr (example_department\<lparr>dept_name := ''Optics''\<rparr>)) example_domain) ! 1
       = registeredStudents example_domain ! 1"
    by blast+
  then have a: "registeredStudents
        (handleEditDepartment ''D1'' ''Optics''
           (Inr (example_department\<lparr>dept_name := ''Optics''\<rparr>)) example_domain) ! 0
       = example_student\<lparr>stu_department := ''Optics''\<rparr>"
    "registeredStudents
        (handleEditDepartment ''D1'' ''Optics''
           (Inr (example_department\<lparr>dept_name := ''Optics''\<rparr>)) example_domain) ! 1
       = example_student2"
    by (simp_all only: n)
  from t2 g have b: "handleEditDepartment ''D9'' ''Optics'' (Inl NonError) example_domain
      = example_domain"
    by blast
  from f g l d a b show ?thesis by blast
qed

end
